theory Spec2Isabelle
  imports Complex_Main "HOL-Library.List_Lexorder"
begin

section \<open>Python values and exceptions\<close>

text \<open>
  The exceptions the wrapper raises (or lets through) are values: a function that can
  raise returns \<open>error + 'a\<close>, with \<open>Inl\<close> the exception. Python integers are \<open>int\<close>.
  A Python float is a real number (rounding is outside the model), one of the two
  infinities, or a NaN; the number in \<open>NaN i\<close> tells one NaN object from another, as
  Python's sets and list comparisons take an object to be equal to itself. What the
  library stores as a double (a bin content, a bin edge) is a real number.
\<close>

datatype error =
  ValueError | TypeError | IndexError | ZeroDivisionError | OverflowError
  | RuntimeError | AssertionError | AttributeError | OSError

datatype pyfloat = NegInf | Fin real | PosInf | NaN nat

text \<open>
  The comparisons \<open><\<close> and \<open>>=\<close> of Python on floats: both are false as soon as a NaN takes
  part. Integers compare with floats by their exact values.
\<close>

fun py_lt :: "pyfloat \<Rightarrow> pyfloat \<Rightarrow> bool" where
  "py_lt (NaN i) b = False"
| "py_lt a (NaN j) = False"
| "py_lt (Fin x) (Fin y) = (x < y)"
| "py_lt NegInf b = (b \<noteq> NegInf)"
| "py_lt a PosInf = (a \<noteq> PosInf)"
| "py_lt a b = False"

definition is_nan :: "pyfloat \<Rightarrow> bool" where
  "is_nan a = (case a of NaN i \<Rightarrow> True | _ \<Rightarrow> False)"

definition py_ge :: "pyfloat \<Rightarrow> pyfloat \<Rightarrow> bool" where
  "py_ge a b = (\<not> is_nan a \<and> \<not> is_nan b \<and> \<not> py_lt a b)"

text \<open>
  \<open>slice(start, stop, step).indices(n)\<close> and \<open>range(start, stop, step)\<close>, as CPython
  computes them. A step of zero raises ValueError.
\<close>

definition slice_indices ::
  "int option \<Rightarrow> int option \<Rightarrow> int option \<Rightarrow> int \<Rightarrow> error + (int \<times> int \<times> int)" where
  "slice_indices start stop step n =
     (let st = (case step of None \<Rightarrow> 1 | Some k \<Rightarrow> k) in
      if st = 0 then Inl ValueError
      else
        let lower = (if st < 0 then - 1 else 0);
            upper = (if st < 0 then n - 1 else n);
            clip = (\<lambda>v. if v < 0 then (if v + n < lower then lower else v + n)
                        else (if v > upper then upper else v));
            a = (case start of None \<Rightarrow> (if st < 0 then upper else lower) | Some v \<Rightarrow> clip v);
            b = (case stop of None \<Rightarrow> (if st < 0 then lower else upper) | Some v \<Rightarrow> clip v)
        in Inr (a, b, st))"

definition py_range :: "int \<Rightarrow> int \<Rightarrow> int \<Rightarrow> int list" where
  "py_range a b st =
     (if st > 0 then map (\<lambda>k. a + int k * st) [0 ..< nat ((b - a + st - 1) div st)]
      else if st < 0 then map (\<lambda>k. a + int k * st) [0 ..< nat ((a - b - st - 1) div (- st))]
      else [])"

section \<open>The wrapped histogram object\<close>

text \<open>
  The wrapper owns no histogram state: contents, errors and axes live in the object of the
  native library (TH1, TH2, TH3 and their TAxis). That object is not part of the sources;
  what follows is its state as the wrapper sees it through the calls it makes, with the
  behaviour the library documents for each call. An axis is the ascending list of its bin
  edges (\<open>nbins + 1\<close> of them; bin \<open>b\<close> of \<open>1..nbins\<close> lies between edge \<open>b - 1\<close> and
  edge \<open>b\<close>; bin \<open>0\<close> is the underflow, bin \<open>nbins + 1\<close> the overflow).
\<close>

definition GetNbins :: "real list \<Rightarrow> int" where
  "GetNbins ax = int (length ax) - 1"

definition GetXmin :: "real list \<Rightarrow> real" where
  "GetXmin ax = ax ! 0"

definition GetXmax :: "real list \<Rightarrow> real" where
  "GetXmax ax = ax ! (length ax - 1)"

definition binwidth :: "real list \<Rightarrow> real" where
  "binwidth ax = (GetXmax ax - GetXmin ax) / real_of_int (GetNbins ax)"

definition GetBinLowEdge :: "real list \<Rightarrow> int \<Rightarrow> real" where
  "GetBinLowEdge ax b =
     (if 0 < b \<and> b \<le> GetNbins ax then ax ! nat (b - 1)
      else GetXmin ax + real_of_int (b - 1) * binwidth ax)"

definition GetBinUpEdge :: "real list \<Rightarrow> int \<Rightarrow> real" where
  "GetBinUpEdge ax b =
     (if 0 < b \<and> b \<le> GetNbins ax then ax ! nat b
      else GetXmin ax + real_of_int b * binwidth ax)"

definition GetBinWidth :: "real list \<Rightarrow> int \<Rightarrow> real" where
  "GetBinWidth ax b =
     (let c = (if b > GetNbins ax then GetNbins ax else b);
          d = (if c < 1 then 1 else c)
      in ax ! nat d - ax ! nat (d - 1))"

definition GetBinCenter :: "real list \<Rightarrow> int \<Rightarrow> real" where
  "GetBinCenter ax b =
     (if 0 < b \<and> b \<le> GetNbins ax
      then ax ! nat (b - 1) + (ax ! nat b - ax ! nat (b - 1)) / 2
      else GetXmin ax + real_of_int (b - 1) * binwidth ax + binwidth ax / 2)"

text \<open>
  \<open>TAxis::FindBin\<close>: the underflow below the first edge, the overflow from the last edge
  on, and otherwise the bin whose low edge is the last edge not above \<open>x\<close>.
\<close>

definition FindBin :: "real list \<Rightarrow> real \<Rightarrow> int" where
  "FindBin ax x =
     (if x < GetXmin ax then 0
      else if \<not> x < GetXmax ax then GetNbins ax + 1
      else int (length (takeWhile (\<lambda>e. e \<le> x) ax)))"

record hist =
  fDimension :: nat
  fXaxis :: "real list"
  fYaxis :: "real list"
  fZaxis :: "real list"
  fArray :: "real list"
  fSumw2 :: "real list"
  fEntries :: real
  fStats :: "real list"
  fIntegral :: "real list"

text \<open>
  \<open>fArray\<close> holds one cell per global bin, \<open>fSumw2\<close> the sums of squared weights (empty
  when they are not stored), \<open>fStats\<close> the statistics vector that GetStats reports and
  PutStats stores, \<open>fIntegral\<close> the cumulative integral array that GetIntegral hands out.
  An axis the histogram does not use has the single bin from 0 to 1.
\<close>

definition unused_axis :: "real list" where
  "unused_axis = [0, 1]"

definition GetDimension :: "hist \<Rightarrow> int" where
  "GetDimension h = int (fDimension h)"

definition GetNbinsX :: "hist \<Rightarrow> int" where
  "GetNbinsX h = GetNbins (fXaxis h)"

definition GetNbinsY :: "hist \<Rightarrow> int" where
  "GetNbinsY h = GetNbins (fYaxis h)"

definition GetNbinsZ :: "hist \<Rightarrow> int" where
  "GetNbinsZ h = GetNbins (fZaxis h)"

definition GetSize :: "hist \<Rightarrow> int" where
  "GetSize h = int (length (fArray h))"

definition ncells :: "nat \<Rightarrow> real list \<Rightarrow> real list \<Rightarrow> real list \<Rightarrow> nat" where
  "ncells d ax ay az =
     (if d < 2 then length ax + 1
      else if d < 3 then (length ax + 1) * (length ay + 1)
      else (length ax + 1) * (length ay + 1) * (length az + 1))"

definition clamp :: "int \<Rightarrow> int \<Rightarrow> int" where
  "clamp n b = (if b < 0 then 0 else if b \<ge> n then n - 1 else b)"

text \<open>\<open>TH1::GetBin\<close>: the global bin of per-axis bin numbers, each forced into its axis.\<close>

definition GetBin :: "hist \<Rightarrow> int \<Rightarrow> int \<Rightarrow> int \<Rightarrow> int" where
  "GetBin h binx biny binz =
     (let nx = GetNbinsX h + 2; ny = GetNbinsY h + 2; nz = GetNbinsZ h + 2 in
      if fDimension h < 2 then clamp nx binx
      else if fDimension h < 3 then clamp nx binx + nx * clamp ny biny
      else clamp nx binx + nx * (clamp ny biny + ny * clamp nz binz))"

text \<open>\<open>TH1::GetBinXYZ\<close>: the per-axis bin numbers of a global bin; an unused axis gives 0.\<close>

definition GetBinXYZ :: "hist \<Rightarrow> int \<Rightarrow> int \<times> int \<times> int" where
  "GetBinXYZ h g =
     (let nx = GetNbinsX h + 2; ny = GetNbinsY h + 2; binx = g mod nx in
      if fDimension h < 2 then (binx, 0, 0)
      else if fDimension h < 3 then (binx, ((g - binx) div nx) mod ny, 0)
      else (binx, ((g - binx) div nx) mod ny,
            ((g - binx) div nx - ((g - binx) div nx) mod ny) div ny))"

text \<open>
  \<open>GetBinContent\<close> reads the cell of a global bin forced into range. \<open>SetBinContent\<close>
  counts one more entry and writes the cell, but drops a write outside the range.
\<close>

definition GetBinContent :: "hist \<Rightarrow> int \<Rightarrow> real" where
  "GetBinContent h b = fArray h ! nat (clamp (GetSize h) b)"

definition SetBinContent :: "hist \<Rightarrow> int \<Rightarrow> real \<Rightarrow> hist" where
  "SetBinContent h b c =
     (let h1 = h\<lparr>fEntries := fEntries h + 1\<rparr> in
      if b < 0 \<or> b \<ge> GetSize h then h1
      else h1\<lparr>fArray := (fArray h)[nat b := c]\<rparr>)"

definition GetBinContent3 :: "hist \<Rightarrow> int \<Rightarrow> int \<Rightarrow> int \<Rightarrow> real" where
  "GetBinContent3 h x y z = GetBinContent h (GetBin h x y z)"

definition SetBinContent3 :: "hist \<Rightarrow> int \<Rightarrow> int \<Rightarrow> int \<Rightarrow> real \<Rightarrow> hist" where
  "SetBinContent3 h x y z c =
     (if fDimension h < 2 then SetBinContent h x c
      else SetBinContent h (GetBin h x y z) c)"

text \<open>
  The error of a bin is the root of its sum of squared weights when those are stored and
  the root of the absolute content otherwise. Setting an error first creates the sums
  from the contents when they are missing.
\<close>

definition GetSumw2N :: "hist \<Rightarrow> int" where
  "GetSumw2N h = int (length (fSumw2 h))"

definition GetBinError :: "hist \<Rightarrow> int \<Rightarrow> real" where
  "GetBinError h b =
     (let c = clamp (GetSize h) b in
      if fSumw2 h \<noteq> [] then sqrt (fSumw2 h ! nat c)
      else sqrt \<bar>fArray h ! nat c\<bar>)"

definition Sumw2 :: "hist \<Rightarrow> hist" where
  "Sumw2 h = (if fSumw2 h \<noteq> [] then h else h\<lparr>fSumw2 := map abs (fArray h)\<rparr>)"

definition SetBinError :: "hist \<Rightarrow> int \<Rightarrow> real \<Rightarrow> hist" where
  "SetBinError h b e =
     (let h1 = Sumw2 h in
      if b < 0 \<or> b \<ge> GetSumw2N h1 then h1
      else h1\<lparr>fSumw2 := (fSumw2 h1)[nat b := e * e]\<rparr>)"

text \<open>\<open>TArrayD::At\<close> and \<open>TArrayD::SetAt\<close> on the array of squared weights.\<close>

definition Sumw2_At :: "hist \<Rightarrow> int \<Rightarrow> real" where
  "Sumw2_At h i = (if 0 \<le> i \<and> i < GetSumw2N h then fSumw2 h ! nat i else 0)"

definition Sumw2_SetAt :: "hist \<Rightarrow> real \<Rightarrow> int \<Rightarrow> hist" where
  "Sumw2_SetAt h v i =
     (if 0 \<le> i \<and> i < GetSumw2N h then h\<lparr>fSumw2 := (fSumw2 h)[nat i := v]\<rparr> else h)"

definition GetEntries :: "hist \<Rightarrow> real" where
  "GetEntries h = fEntries h"

definition SetEntries :: "hist \<Rightarrow> real \<Rightarrow> hist" where
  "SetEntries h n = h\<lparr>fEntries := n\<rparr>"

definition GetStats :: "hist \<Rightarrow> real list" where
  "GetStats h = fStats h"

definition PutStats :: "hist \<Rightarrow> real list \<Rightarrow> hist" where
  "PutStats h st = h\<lparr>fStats := st\<rparr>"

definition GetIntegral :: "hist \<Rightarrow> real list" where
  "GetIntegral h = fIntegral h"


text \<open>
  A histogram of the library: one to three axes with strictly ascending edges, one cell
  per global bin, the squared weights stored for every cell or not at all.
\<close>

definition wf_axis :: "real list \<Rightarrow> bool" where
  "wf_axis ax = (2 \<le> length ax \<and> sorted ax \<and> distinct ax)"

definition wf_hist :: "hist \<Rightarrow> bool" where
  "wf_hist h =
     (1 \<le> fDimension h \<and> fDimension h \<le> 3
      \<and> wf_axis (fXaxis h) \<and> wf_axis (fYaxis h) \<and> wf_axis (fZaxis h)
      \<and> (fDimension h < 2 \<longrightarrow> fYaxis h = unused_axis)
      \<and> (fDimension h < 3 \<longrightarrow> fZaxis h = unused_axis)
      \<and> length (fArray h) = ncells (fDimension h) (fXaxis h) (fYaxis h) (fZaxis h)
      \<and> (fSumw2 h = [] \<or> length (fSumw2 h) = length (fArray h)))"

text \<open>
  Objects are shared by reference: a store lists the state of every live histogram, and a
  reference is an index into it. A new object takes the next free index.
\<close>

type_synonym ref = nat
type_synonym store = "hist list"

definition alloc :: "store \<Rightarrow> hist \<Rightarrow> ref \<times> store" where
  "alloc s h = (length s, s @ [h])"

definition Clone :: "store \<Rightarrow> ref \<Rightarrow> ref \<times> store" where
  "Clone s r = alloc s (s ! r)"

section \<open>The wrapper: axes, bins and indexing\<close>

definition nbins :: "hist \<Rightarrow> int \<Rightarrow> error + int" where
  "nbins h a =
     (if a = 0 then Inr (GetNbinsX h)
      else if a = 1 then Inr (GetNbinsY h)
      else if a = 2 then Inr (GetNbinsZ h)
      else Inl ValueError)"

definition axis :: "hist \<Rightarrow> int \<Rightarrow> error + real list" where
  "axis h a =
     (if a = 0 then Inr (fXaxis h)
      else if a = 1 then Inr (fYaxis h)
      else if a = 2 then Inr (fZaxis h)
      else Inl ValueError)"

definition xyz :: "hist \<Rightarrow> int \<Rightarrow> int \<times> int \<times> int" where
  "xyz h i = GetBinXYZ h i"

text \<open>
  \<open>_edges(axis, index, overflow)\<close> is two functions in one: without an index it yields
  every edge of the axis (bracketed by the infinities when \<open>overflow\<close> is set), with an
  index it returns one edge.
\<close>

definition edges :: "hist \<Rightarrow> int \<Rightarrow> error + real list" where
  "edges h a =
     (case nbins h a of Inl e \<Rightarrow> Inl e | Inr nb \<Rightarrow>
      case axis h a of Inl e \<Rightarrow> Inl e | Inr ax \<Rightarrow>
        Inr (map (GetBinLowEdge ax) [1 .. nb] @ [GetBinUpEdge ax nb]))"

definition edges_overflow :: "hist \<Rightarrow> int \<Rightarrow> error + pyfloat list" where
  "edges_overflow h a =
     (case edges h a of Inl e \<Rightarrow> Inl e | Inr es \<Rightarrow> Inr (NegInf # map Fin es @ [PosInf]))"

definition edges_at :: "hist \<Rightarrow> int \<Rightarrow> int \<Rightarrow> error + pyfloat" where
  "edges_at h a index =
     (case nbins h a of Inl e \<Rightarrow> Inl e | Inr nb \<Rightarrow>
      case axis h a of Inl e \<Rightarrow> Inl e | Inr ax \<Rightarrow>
        (let i = index mod (nb + 3) in
         if i = 0 then Inr NegInf
         else if i = nb + 2 then Inr PosInf
         else if i = nb then Inr (Fin (GetBinUpEdge ax i))
         else Inr (Fin (GetBinLowEdge ax i))))"

text \<open>
  \<open>xedges\<close> exists on every histogram class, \<open>yedges\<close> on the 2D and 3D classes and
  \<open>zedges\<close> on the 3D class only: looking up a missing method raises AttributeError.
\<close>

definition xedges :: "hist \<Rightarrow> int \<Rightarrow> error + pyfloat" where
  "xedges h index = edges_at h 0 index"

definition yedges :: "hist \<Rightarrow> int \<Rightarrow> error + pyfloat" where
  "yedges h index = (if fDimension h < 2 then Inl AttributeError else edges_at h 1 index)"

definition zedges :: "hist \<Rightarrow> int \<Rightarrow> error + pyfloat" where
  "zedges h index = (if fDimension h < 3 then Inl AttributeError else edges_at h 2 index)"

text \<open>
  \<open>lowerbound\<close> and \<open>upperbound\<close> return either an edge or, for an axis that is none of
  0, 1, 2, a ValueError object as their value.
\<close>

datatype bound = Edge pyfloat | ExceptionObject error

definition as_bound :: "error + pyfloat \<Rightarrow> error + bound" where
  "as_bound r = (case r of Inl e \<Rightarrow> Inl e | Inr v \<Rightarrow> Inr (Edge v))"

definition lowerbound :: "hist \<Rightarrow> int \<Rightarrow> error + bound" where
  "lowerbound h a =
     (if a = 0 then as_bound (xedges h 0)
      else if a = 1 then as_bound (yedges h 0)
      else if a = 2 then as_bound (zedges h 0)
      else Inr (ExceptionObject ValueError))"

definition upperbound :: "hist \<Rightarrow> int \<Rightarrow> error + bound" where
  "upperbound h a =
     (if a = 0 then as_bound (xedges h (- 1))
      else if a = 1 then as_bound (yedges h (- 1))
      else if a = 2 then as_bound (zedges h (- 1))
      else Inr (ExceptionObject ValueError))"

text \<open>
  A BinProxy keeps the reference to its histogram, the global bin index and the per-axis
  bin numbers computed when it was made. Its \<open>value\<close> and \<open>error\<close> are properties: each
  access calls the histogram.
\<close>

record BinProxy =
  hist :: ref
  idx :: int
  bxyz :: "int \<times> int \<times> int"

definition BinProxy_init :: "store \<Rightarrow> ref \<Rightarrow> int \<Rightarrow> BinProxy" where
  "BinProxy_init s r i = \<lparr>hist = r, idx = i, bxyz = xyz (s ! r) i\<rparr>"

definition BinProxy_value :: "store \<Rightarrow> BinProxy \<Rightarrow> real" where
  "BinProxy_value s b = GetBinContent (s ! hist b) (idx b)"

definition BinProxy_set_value :: "store \<Rightarrow> BinProxy \<Rightarrow> real \<Rightarrow> store" where
  "BinProxy_set_value s b v = s[hist b := SetBinContent (s ! hist b) (idx b) v]"

definition BinProxy_error :: "store \<Rightarrow> BinProxy \<Rightarrow> real" where
  "BinProxy_error s b = GetBinError (s ! hist b) (idx b)"

definition BinProxy_set_error :: "store \<Rightarrow> BinProxy \<Rightarrow> real \<Rightarrow> store" where
  "BinProxy_set_error s b e = s[hist b := SetBinError (s ! hist b) (idx b) e]"

definition BinProxy_imul :: "store \<Rightarrow> BinProxy \<Rightarrow> real \<Rightarrow> store" where
  "BinProxy_imul s b v =
     (let s1 = BinProxy_set_value s b (BinProxy_value s b * v)
      in BinProxy_set_error s1 b (BinProxy_error s1 b * v))"

definition BinProxy_overflow :: "store \<Rightarrow> BinProxy \<Rightarrow> bool" where
  "BinProxy_overflow s b =
     (let h = s ! hist b; (x, y, z) = xyz h (idx b); ind = [x, y, z] in
      \<exists>i \<in> set [0 ..< fDimension h].
        ind ! i = 0 \<or> Inr (ind ! i) = map_sum id (\<lambda>n. n + 1) (nbins h (int i)))"

text \<open>
  \<open>bins(overflow)\<close> walks the global bins in order, leaving the overflow bins out unless
  asked for them; iterating a histogram is \<open>bins(overflow=True)\<close>.
\<close>

definition bins :: "store \<Rightarrow> ref \<Rightarrow> bool \<Rightarrow> BinProxy list" where
  "bins s r overflow =
     filter (\<lambda>b. overflow \<or> \<not> BinProxy_overflow s b)
       (map (BinProxy_init s r) [0 .. GetSize (s ! r) - 1])"

definition range_check :: "hist \<Rightarrow> int \<Rightarrow> int option \<Rightarrow> error + unit" where
  "range_check h index a =
     (case a of
        None \<Rightarrow> (if \<not> (0 \<le> index \<and> index < GetSize h) then Inl IndexError else Inr ())
      | Some k \<Rightarrow>
          (case nbins h k of Inl e \<Rightarrow> Inl e | Inr nb \<Rightarrow>
             if \<not> (0 \<le> index \<and> index < nb + 2) then Inl IndexError else Inr ()))"

text \<open>
  An index is an integer (a global bin), a tuple of per-axis bin numbers, or a slice.
  Unpacking a tuple whose length is not the dimension of a 2D or 3D histogram raises
  ValueError; a 1D histogram ignores the tuple and takes global bin 0.
\<close>

datatype index = IInt int | ITuple "int list" | ISlice "int option" "int option" "int option"

datatype item = Proxy BinProxy | Proxies "BinProxy list"

definition tuple_bin :: "hist \<Rightarrow> int list \<Rightarrow> error + int" where
  "tuple_bin h t =
     (if fDimension h = 2 then
        (case t of
           [ix, iy] \<Rightarrow>
             (case range_check h ix (Some 0) of Inl e \<Rightarrow> Inl e | Inr _ \<Rightarrow>
              case range_check h iy (Some 1) of Inl e \<Rightarrow> Inl e | Inr _ \<Rightarrow>
                Inr (GetBin h ix iy 0))
         | _ \<Rightarrow> Inl ValueError)
      else if fDimension h = 3 then
        (case t of
           [ix, iy, iz] \<Rightarrow>
             (case range_check h ix (Some 0) of Inl e \<Rightarrow> Inl e | Inr _ \<Rightarrow>
              case range_check h iy (Some 1) of Inl e \<Rightarrow> Inl e | Inr _ \<Rightarrow>
              case range_check h iz (Some 2) of Inl e \<Rightarrow> Inl e | Inr _ \<Rightarrow>
                Inr (GetBin h ix iy iz))
         | _ \<Rightarrow> Inl ValueError)
      else Inr (GetBin h 0 0 0))"

definition getitem :: "store \<Rightarrow> ref \<Rightarrow> index \<Rightarrow> error + item" where
  "getitem s r index =
     (case index of
        ISlice a b c \<Rightarrow>
          (let ps = bins s r True in
           case slice_indices a b c (int (length ps)) of Inl e \<Rightarrow> Inl e
           | Inr (i, j, k) \<Rightarrow> Inr (Proxies (map (\<lambda>n. ps ! nat n) (py_range i j k))))
      | ITuple t \<Rightarrow>
          (case tuple_bin (s ! r) t of Inl e \<Rightarrow> Inl e
           | Inr g \<Rightarrow> Inr (Proxy (BinProxy_init s r g)))
      | IInt i \<Rightarrow>
          (case range_check (s ! r) i None of Inl e \<Rightarrow> Inl e
           | Inr _ \<Rightarrow> Inr (Proxy (BinProxy_init s r i))))"

section \<open>The wrapper: arithmetic operators\<close>















section \<open>The wrapper: constructing histograms\<close>

text \<open>
  A constructor argument: an \<open>int\<close>, a \<open>long\<close>, a \<open>float\<close>, a sequence of bin edges that can
  be read any number of times and has a length (\<open>PIter\<close>: a list, a tuple, an array), an
  iterator over bin edges that can be read once and has no length (\<open>PGen\<close>: a generator),
  or any other object (\<open>PObj\<close>: a string, None). Bin edges are floats. Booleans are left out.
\<close>

datatype pyarg =
  PInt int | PLong int | PFloat pyfloat | PIter "pyfloat list" | PGen "pyfloat list" | PObj

definition has_iter :: "pyarg \<Rightarrow> bool" where
  "has_iter a = (case a of PIter _ \<Rightarrow> True | PGen _ \<Rightarrow> True | _ \<Rightarrow> False)"

text \<open>
  Modelled from the spec: \<open>isbasictype\<close> is imported from the package's \<open>base\<close> module,
  which is not among the sources. The messages next to its calls say what it accepts
  ("must be an int, float, or long"), and the claims call it a basic numeric type.
\<close>

definition isbasictype :: "pyarg \<Rightarrow> bool" where
  "isbasictype a = (case a of PInt _ \<Rightarrow> True | PLong _ \<Rightarrow> True | PFloat _ \<Rightarrow> True | _ \<Rightarrow> False)"

text \<open>The value of a number, for comparisons.\<close>

definition num_val :: "pyarg \<Rightarrow> pyfloat" where
  "num_val a =
     (case a of PInt n \<Rightarrow> Fin (real_of_int n) | PLong n \<Rightarrow> Fin (real_of_int n)
      | PFloat x \<Rightarrow> x | _ \<Rightarrow> Fin 0)"

text \<open>
  \<open>float(x)\<close> of a number: an integer that rounds to a double beyond the largest one raises
  OverflowError; these are the integers from \<open>2^1024 - 2^970\<close> on, and their negatives.
\<close>

definition float_of :: "pyarg \<Rightarrow> error + pyfloat" where
  "float_of a =
     (case a of
        PInt n \<Rightarrow> if 2 ^ 1024 - 2 ^ 970 \<le> \<bar>n\<bar> then Inl OverflowError
                  else Inr (Fin (real_of_int n))
      | PLong n \<Rightarrow> if 2 ^ 1024 - 2 ^ 970 \<le> \<bar>n\<bar> then Inl OverflowError
                   else Inr (Fin (real_of_int n))
      | PFloat x \<Rightarrow> Inr x
      | _ \<Rightarrow> Inl TypeError)"

text \<open>
  The test \<open>list(sorted(edges)) != list(edges)\<close>, followed by the test for repeated edges.
  Python's sort leaves a list as it is when the list is one ascending run: no element is
  less than the one before it. For floats without NaN that is the list being in ascending
  order. With a NaN among them it is not, since every comparison with a NaN is false:
  \<open>[2.0, nan, 1.0]\<close> is one ascending run. A list that is not one ascending run is
  reordered by the sort, and then it differs from its sorted copy or it has two equal
  elements: either way \<open>_parse_args\<close> raises ValueError.
\<close>

fun ascending_run :: "pyfloat list \<Rightarrow> bool" where
  "ascending_run (x # y # zs) = (\<not> py_lt y x \<and> ascending_run (y # zs))"
| "ascending_run zs = True"

record param =
  p_bins :: "pyfloat list option"
  p_nbins :: "int option"
  p_low :: "pyarg option"
  p_high :: "pyarg option"

text \<open>
  One round of the loop of \<open>_parse_args\<close>: the parameters of one axis and the arguments
  left. An iterator is used up by \<open>sorted\<close>, so that \<open>list\<close> of it is empty afterwards: one
  that yields an edge fails the first test, and an empty one has no \<open>len\<close> (TypeError).
  When the lower bound is not below the upper one, the message of the ValueError is
  built first, with \<open>float(low)\<close> and \<open>float(high)\<close>, which can raise themselves.
\<close>

fun parse_axis :: "pyarg list \<Rightarrow> error + (param \<times> pyarg list)" where
  "parse_axis [] = Inl TypeError"
| "parse_axis (PIter es # rest) =
     (if \<not> ascending_run es then Inl ValueError
      else if length (remdups es) \<noteq> length es then Inl ValueError
      else Inr (\<lparr>p_bins = Some es, p_nbins = Some (int (length es) - 1),
                 p_low = None, p_high = None\<rparr>, rest))"
| "parse_axis (PGen es # rest) = (if es \<noteq> [] then Inl ValueError else Inl TypeError)"
| "parse_axis (a0 # a1 # a2 # rest) =
     (case a0 of
        PInt n \<Rightarrow>
          (if n < 1 then Inl ValueError
           else if \<not> isbasictype a1 then Inl TypeError
           else if \<not> isbasictype a2 then Inl TypeError
           else if py_ge (num_val a1) (num_val a2) then
             (case float_of a1 of Inl e \<Rightarrow> Inl e
              | Inr flow \<Rightarrow>
                  (case float_of a2 of Inl e \<Rightarrow> Inl e
                   | Inr fhigh \<Rightarrow> Inl ValueError))
           else Inr (\<lparr>p_bins = None, p_nbins = Some n, p_low = Some a1, p_high = Some a2\<rparr>,
                     rest))
      | _ \<Rightarrow> Inl TypeError)"
| "parse_axis _ = Inl TypeError"

fun parse_loop :: "nat \<Rightarrow> pyarg list \<Rightarrow> error + (param list \<times> pyarg list)" where
  "parse_loop 0 args = Inr ([], args)"
| "parse_loop (Suc n) args =
     (case parse_axis args of Inl e \<Rightarrow> Inl e
      | Inr (p, rest) \<Rightarrow>
          (case parse_loop n rest of Inl e \<Rightarrow> Inl e
           | Inr (ps, rest') \<Rightarrow> Inr (p # ps, rest')))"

text \<open>
  \<open>_parse_args(args, ignore_extras)\<close> for a class of dimension \<open>d\<close>. It returns the
  parameters and, with \<open>ignore_extras\<close>, the arguments left over; without it there are none.
\<close>

definition parse_args :: "nat \<Rightarrow> pyarg list \<Rightarrow> bool \<Rightarrow> error + (param list \<times> pyarg list)" where
  "parse_args d args ignore_extras =
     (case parse_loop d args of Inl e \<Rightarrow> Inl e
      | Inr (ps, rest) \<Rightarrow>
          if ignore_extras then Inr (ps, rest)
          else if length rest \<noteq> 0 then Inl TypeError
          else Inr (ps, []))"

text \<open>What the claim promises of the parameters of an axis.\<close>

definition axis_ok :: "param \<Rightarrow> bool" where
  "axis_ok p =
     (case p_bins p of
        Some es \<Rightarrow> p_nbins p = Some (int (length es) - 1)
      | None \<Rightarrow>
          (case (p_nbins p, p_low p, p_high p) of
             (Some n, Some lo, Some hi) \<Rightarrow> 1 \<le> n \<and> py_lt (num_val lo) (num_val hi)
           | _ \<Rightarrow> False))"

text \<open>
  The constructor of the library makes an empty histogram on the given axes; whether it
  stores the sums of squared weights is the library's global default, a parameter here.
  An axis given by a number of bins and two bounds has evenly spaced edges. The library
  is modelled on axes whose edges are real numbers: \<open>the_real\<close> reads a float that is one,
  and says nothing about an infinity or a NaN handed to the library.
\<close>

fun the_real :: "pyfloat \<Rightarrow> real" where
  "the_real (Fin x) = x"

definition TH_new :: "bool \<Rightarrow> nat \<Rightarrow> real list \<Rightarrow> real list \<Rightarrow> real list \<Rightarrow> hist" where
  "TH_new sumw2 d ax ay az =
     \<lparr>fDimension = d, fXaxis = ax, fYaxis = ay, fZaxis = az,
      fArray = replicate (ncells d ax ay az) 0,
      fSumw2 = (if sumw2 then replicate (ncells d ax ay az) 0 else []),
      fEntries = 0, fStats = [], fIntegral = []\<rparr>"

definition uniform_edges :: "int \<Rightarrow> real \<Rightarrow> real \<Rightarrow> real list" where
  "uniform_edges n lo hi = map (\<lambda>k. lo + real_of_int k * ((hi - lo) / real_of_int n)) [0 .. n]"

definition axis_edges :: "param \<Rightarrow> real list" where
  "axis_edges p =
     (case p_bins p of
        Some es \<Rightarrow> map the_real es
      | None \<Rightarrow>
          (case (p_nbins p, p_low p, p_high p) of
             (Some n, Some lo, Some hi) \<Rightarrow>
               uniform_edges n (the_real (num_val lo)) (the_real (num_val hi))
           | _ \<Rightarrow> []))"

definition Hist_init :: "bool \<Rightarrow> pyarg list \<Rightarrow> error + hist" where
  "Hist_init sumw2 args =
     (case parse_args 1 args False of Inl e \<Rightarrow> Inl e
      | Inr (params, _) \<Rightarrow>
          Inr (TH_new sumw2 1 (axis_edges (params ! 0)) unused_axis unused_axis))"

definition Hist2D_init :: "bool \<Rightarrow> pyarg list \<Rightarrow> error + hist" where
  "Hist2D_init sumw2 args =
     (case parse_args 2 args False of Inl e \<Rightarrow> Inl e
      | Inr (params, _) \<Rightarrow>
          Inr (TH_new sumw2 2 (axis_edges (params ! 0)) (axis_edges (params ! 1)) unused_axis))"

definition Hist3D_init :: "bool \<Rightarrow> pyarg list \<Rightarrow> error + hist" where
  "Hist3D_init sumw2 args =
     (case parse_args 3 args False of Inl e \<Rightarrow> Inl e
      | Inr (params, _) \<Rightarrow>
          Inr (TH_new sumw2 3 (axis_edges (params ! 0)) (axis_edges (params ! 1))
                 (axis_edges (params ! 2))))"

section \<open>The user-data area\<close>

text \<open>
  \<open>ensure_directory\<close> reads the environment and the file system and may create
  directories. The environment maps names to values; the file system maps a path to what
  \<open>os.path.exists\<close> and \<open>os.path.isdir\<close> find there. The functions of the standard library
  it calls are parameters: \<open>expanduser\<close>, \<open>expandvars\<close> and \<open>os.makedirs\<close>, which either
  raises (leaving the file system in some state) or returns.
\<close>

datatype kind = File | Dir

type_synonym fs = "string \<rightharpoonup> kind"
type_synonym env = "string \<rightharpoonup> string"

record osapi =
  expanduser :: "env \<Rightarrow> string \<Rightarrow> string"
  expandvars :: "env \<Rightarrow> string \<Rightarrow> string"
  makedirs :: "fs \<Rightarrow> string \<Rightarrow> (error + unit) \<times> fs"

definition getenv :: "env \<Rightarrow> string \<Rightarrow> string option" where
  "getenv e variable = e variable"

definition path_exists :: "fs \<Rightarrow> string \<Rightarrow> bool" where
  "path_exists f p = (f p \<noteq> None)"

definition isdir :: "fs \<Rightarrow> string \<Rightarrow> bool" where
  "isdir f p = (f p = Some Dir)"

definition startswith :: "string \<Rightarrow> string \<Rightarrow> bool" where
  "startswith s pre = (take (length pre) s = pre)"

text \<open>The path \<open>ensure_directory\<close> works on: its first five lines.\<close>

definition expanded_path :: "osapi \<Rightarrow> env \<Rightarrow> string \<Rightarrow> string \<Rightarrow> string" where
  "expanded_path os e variable dflt =
     (case getenv e variable of
        None \<Rightarrow> expandvars os e dflt
      | Some path \<Rightarrow> expandvars os e (expanduser os e path))"

definition ensure_directory ::
  "osapi \<Rightarrow> env \<Rightarrow> fs \<Rightarrow> string \<Rightarrow> string \<Rightarrow> (error + string option) \<times> fs" where
  "ensure_directory os e f variable dflt =
     (let path = expanded_path os e variable dflt in
      if startswith path ''~'' then (Inr None, f)
      else if \<not> path_exists f path then
        (case makedirs os f path of
           (Inl err, f') \<Rightarrow> (Inl err, f')
         | (Inr _, f') \<Rightarrow> (Inr (Some path), f'))
      else if \<not> isdir f path then (Inr None, f)
      else (Inr (Some path), f))"

text \<open>
  What \<open>os.makedirs\<close> guarantees when it returns: the directory is there.
\<close>

definition makedirs_contract :: "osapi \<Rightarrow> bool" where
  "makedirs_contract os = (\<forall>f p f'. makedirs os f p = (Inr (), f') \<longrightarrow> f' p = Some Dir)"

text \<open>
  A stand-in for the standard library, to run the function: the tilde expands to the value
  of HOME when that is set, variables are left alone, and a directory can be made anywhere
  but at the empty path.
\<close>

definition example_os :: osapi where
  "example_os =
     \<lparr>expanduser = (\<lambda>e p. if startswith p ''~''
                             then (case e ''HOME'' of None \<Rightarrow> p | Some h \<Rightarrow> h @ drop 1 p)
                             else p),
      expandvars = (\<lambda>e p. p),
      makedirs = (\<lambda>f p. if p = [] then (Inl OSError, f) else (Inr (), f(p \<mapsto> Dir)))\<rparr>"

section \<open>The wrapper: sums of squared weights and templates\<close>

text \<open>
  \<open>get_sum_w2\<close> and \<open>set_sum_w2\<close> refuse a histogram that does not store the sums, and
  assert that the bin numbers lie on their axes.
\<close>

definition sum_w2_index :: "hist \<Rightarrow> int \<Rightarrow> int \<Rightarrow> int \<Rightarrow> error + int" where
  "sum_w2_index h x y z =
     (if GetSumw2N h = 0 then Inl RuntimeError
      else
        let xl = GetNbinsX h + 2; yl = GetNbinsY h + 2; zl = GetNbinsZ h + 2 in
        if \<not> (x \<ge> 0 \<and> x < xl) then Inl AssertionError
        else if \<not> (y \<ge> 0 \<and> y < yl) then Inl AssertionError
        else if \<not> (z \<ge> 0 \<and> z < zl) then Inl AssertionError
        else
          let z1 = (if GetDimension h < 3 then 0 else z);
              y1 = (if GetDimension h < 2 then 0 else y)
          in Inr (xl * yl * z1 + xl * y1 + x))"

definition get_sum_w2 :: "hist \<Rightarrow> int \<Rightarrow> int \<Rightarrow> int \<Rightarrow> error + real" where
  "get_sum_w2 h x y z =
     (case sum_w2_index h x y z of Inl e \<Rightarrow> Inl e | Inr i \<Rightarrow> Inr (Sumw2_At h i))"

definition set_sum_w2 :: "hist \<Rightarrow> real \<Rightarrow> int \<Rightarrow> int \<Rightarrow> int \<Rightarrow> error + hist" where
  "set_sum_w2 h w x y z =
     (case sum_w2_index h x y z of Inl e \<Rightarrow> Inl e | Inr i \<Rightarrow> Inr (Sumw2_SetAt h w i))"

text \<open>
  \<open>new_binning_template(binning, axis)\<close>: an empty histogram of the same class whose axis
  \<open>axis\<close> has the given binning and whose other axes keep their edges. A binning that is
  not iterable cannot be spliced into the argument list (TypeError).
\<close>

fun template_args :: "hist \<Rightarrow> pyarg \<Rightarrow> int \<Rightarrow> nat list \<Rightarrow> error + pyarg list" where
  "template_args h binning a [] = Inr []"
| "template_args h binning a (iaxis # rest) =
     (case (if int iaxis = a
            then (if has_iter binning then Inr binning else Inl TypeError)
            else (case edges h (int iaxis) of Inl e \<Rightarrow> Inl e
                  | Inr es \<Rightarrow> Inr (PIter (map Fin es))))
      of Inl e \<Rightarrow> Inl e
       | Inr arg \<Rightarrow>
           (case template_args h binning a rest of Inl e \<Rightarrow> Inl e
            | Inr args \<Rightarrow> Inr (arg # args)))"

definition new_binning_template :: "bool \<Rightarrow> hist \<Rightarrow> pyarg \<Rightarrow> int \<Rightarrow> error + hist" where
  "new_binning_template sumw2 h binning a =
     (let ndim = GetDimension h in
      if a > ndim - 1 then Inl ValueError
      else
        case template_args h binning a [0 ..< nat ndim] of Inl e \<Rightarrow> Inl e
        | Inr args \<Rightarrow>
            if ndim = 1 then Hist_init sumw2 args
            else if ndim = 2 then Hist2D_init sumw2 args
            else Hist3D_init sumw2 args)"

section \<open>The wrapper: merging bins\<close>

text \<open>
  The first loop of \<open>merge_bins\<close>: each bin range becomes the list of bin numbers it
  covers on an axis of \<open>axis_bins\<close> bins; empty lists are skipped.
\<close>

definition window_indices :: "int \<Rightarrow> int \<Rightarrow> int \<Rightarrow> int list" where
  "window_indices l r n =
     (case slice_indices (Some l) (Some r) None n of
        Inl _ \<Rightarrow> []
      | Inr (a, b, st) \<Rightarrow> py_range a b st)"

fun merge_windows :: "int \<Rightarrow> int list list \<Rightarrow> error + int list list" where
  "merge_windows axis_bins [] = Inr []"
| "merge_windows axis_bins (window # rest) =
     (if length window \<noteq> 2 then Inl ValueError
      else
        let l = window ! 0; r = window ! 1 in
        if l = r then Inl ValueError
        else if l < 0 \<and> r \<ge> 0 then Inl ValueError
        else
          let r1 = (if r = - 1 then axis_bins else r + 1);
              bin_idx = window_indices l r1 axis_bins
          in case merge_windows axis_bins rest of Inl e \<Rightarrow> Inl e
             | Inr windows \<Rightarrow> Inr (if bin_idx \<noteq> [] then bin_idx # windows else windows))"

definition windows_overlap :: "int list list \<Rightarrow> bool" where
  "windows_overlap windows =
     (length windows > 1 \<and> length (concat windows) \<noteq> length (remdups (concat windows)))"

text \<open>
  The second loop: the mapping from old to new bin number, the set of left bins, and the
  running offset, over the sorted windows.
\<close>

fun build_mapping ::
  "int list list \<Rightarrow> (int \<rightharpoonup> int) \<times> int set \<times> int \<Rightarrow> (int \<rightharpoonup> int) \<times> int set \<times> int" where
  "build_mapping [] st = st"
| "build_mapping (window # rest) (mapping, left_idx, offset) =
     (let new_idx = (if window ! 0 - offset = 0 then 1 else window ! 0 - offset);
          left_idx1 = insert (if window ! 0 = 0 then 1 else window ! 0) left_idx;
          mapping1 = fold (\<lambda>idx m. m(idx \<mapsto> new_idx)) window mapping;
          offset1 = offset + (int (length window) - 1);
          offset2 = (if window ! 0 = 0 then offset1 - 1 else offset1)
      in build_mapping rest (mapping1, left_idx1, offset2))"

text \<open>The third loop: the edges that stay.\<close>

definition kept_edges :: "(int \<rightharpoonup> int) \<Rightarrow> int set \<Rightarrow> int \<Rightarrow> real list \<Rightarrow> real list" where
  "kept_edges mapping left_idx axis_bins es =
     map snd (filter (\<lambda>(i, edge). \<not> (int i \<noteq> axis_bins - 2 \<and> mapping (int i + 1) \<noteq> None
                                      \<and> int i + 1 \<notin> left_idx))
                (enumerate 0 es))"

definition translate :: "(int \<rightharpoonup> int) \<Rightarrow> real list \<Rightarrow> real list \<Rightarrow> int \<Rightarrow> int" where
  "translate mapping this_axis new_axis i =
     (case mapping i of
        Some j \<Rightarrow> j
      | None \<Rightarrow> if i = 0 then 0 else FindBin new_axis (GetBinCenter this_axis i))"

definition new_xyz :: "(int \<Rightarrow> int) \<Rightarrow> int \<Rightarrow> int \<times> int \<times> int \<Rightarrow> int \<times> int \<times> int" where
  "new_xyz tr a c =
     (case c of (x, y, z) \<Rightarrow>
        if a = 0 then (tr x, y, z) else if a = 1 then (x, tr y, z) else (x, y, tr z))"

text \<open>
  One round of the filling loop, for one bin of the histogram \<open>r\<close>: the content goes to
  the translated bin of the new histogram \<open>n\<close>, then the squared weights. A raise leaves
  the store as it is at that point.
\<close>

definition merge_step ::
  "(int \<Rightarrow> int) \<Rightarrow> int \<Rightarrow> ref \<Rightarrow> store \<Rightarrow> BinProxy \<Rightarrow> error option \<times> store" where
  "merge_step tr a n s b =
     (case new_xyz tr a (bxyz b) of (x, y, z) \<Rightarrow>
      case bxyz b of (x0, y0, z0) \<Rightarrow>
        let new_v = GetBinContent3 (s ! n) x y z;
            s1 = s[n := SetBinContent3 (s ! n) x y z (new_v + BinProxy_value s b)]
        in case get_sum_w2 (s1 ! hist b) x0 y0 z0 of Inl e \<Rightarrow> (Some e, s1)
           | Inr sum_w2 \<Rightarrow>
               (case get_sum_w2 (s1 ! n) x y z of Inl e \<Rightarrow> (Some e, s1)
                | Inr new_sum_w2 \<Rightarrow>
                    (case set_sum_w2 (s1 ! n) (sum_w2 + new_sum_w2) x y z of
                       Inl e \<Rightarrow> (Some e, s1)
                     | Inr h2 \<Rightarrow> (None, s1[n := h2]))))"

fun merge_fill ::
  "(int \<Rightarrow> int) \<Rightarrow> int \<Rightarrow> ref \<Rightarrow> store \<Rightarrow> BinProxy list \<Rightarrow> error option \<times> store" where
  "merge_fill tr a n s [] = (None, s)"
| "merge_fill tr a n s (b # rest) =
     (case merge_step tr a n s b of
        (Some e, s1) \<Rightarrow> (Some e, s1)
      | (None, s1) \<Rightarrow> merge_fill tr a n s1 rest)"

text \<open>
  \<open>merge_bins(bin_ranges, axis)\<close> on the histogram \<open>r\<close> of the store. \<open>sumw2\<close> says
  whether the library gives new histograms their sums of squared weights.
\<close>

definition merge_bins ::
  "bool \<Rightarrow> store \<Rightarrow> ref \<Rightarrow> int list list \<Rightarrow> int \<Rightarrow> (error + ref) \<times> store" where
  "merge_bins sumw2 s r bin_ranges a =
     (let ndim = GetDimension (s ! r) in
      if a > ndim - 1 then (Inl ValueError, s)
      else
        case nbins (s ! r) a of Inl e \<Rightarrow> (Inl e, s)
        | Inr nb \<Rightarrow>
        let axis_bins = nb + 2 in
        case merge_windows axis_bins bin_ranges of Inl e \<Rightarrow> (Inl e, s)
        | Inr windows \<Rightarrow>
        if windows = [] then (case Clone s r of (c, s1) \<Rightarrow> (Inr c, s1))
        else if windows_overlap windows then (Inl ValueError, s)
        else
          case build_mapping (sort windows) (Map.empty, {}, 0) of
            (mapping, left_idx, offset) \<Rightarrow>
          case edges (s ! r) a of Inl e \<Rightarrow> (Inl e, s)
          | Inr es \<Rightarrow>
          let new_edges = kept_edges mapping left_idx axis_bins es in
          case new_binning_template sumw2 (s ! r) (PIter (map Fin new_edges)) a of
            Inl e \<Rightarrow> (Inl e, s)
          | Inr template \<Rightarrow>
          case alloc s template of (n, s1) \<Rightarrow>
          case axis (s1 ! r) a of Inl e \<Rightarrow> (Inl e, s1)
          | Inr this_axis \<Rightarrow>
          case axis (s1 ! n) a of Inl e \<Rightarrow> (Inl e, s1)
          | Inr new_axis \<Rightarrow>
          case merge_fill (translate mapping this_axis new_axis) a n s1 (bins s1 r True) of
            (Some e, s2) \<Rightarrow> (Inl e, s2)
          | (None, s2) \<Rightarrow>
              let s3 = s2[n := PutStats (s2 ! n) (GetStats (s2 ! r))];
                  entries = GetEntries (s3 ! r);
                  s4 = s3[n := SetEntries (s3 ! n) entries]
              in (Inr n, s4))"

section \<open>Notions used in the statements\<close>

text \<open>
  Helpers for the statements about \<open>merge_bins\<close>: where an endpoint of a slice lands, what
  makes a bin range invalid, and the shape of a window (a run of consecutive bin numbers
  on the axis).
\<close>

definition clip_index :: "int \<Rightarrow> int \<Rightarrow> int" where
  "clip_index n v = (if v < 0 then (if v + n < 0 then 0 else v + n) else (if v > n then n else v))"

definition bad_range :: "int list \<Rightarrow> bool" where
  "bad_range w = (length w \<noteq> 2 \<or> w ! 0 = w ! 1 \<or> (w ! 0 < 0 \<and> w ! 1 \<ge> 0))"

definition is_window :: "int \<Rightarrow> int list \<Rightarrow> bool" where
  "is_window n w = (\<exists>lo hi. 0 \<le> lo \<and> lo \<le> hi \<and> hi < n \<and> w = [lo .. hi])"

text \<open>The empty histogram of the class of \<open>h\<close> with axis \<open>a\<close> rebinned to the edges \<open>es\<close>.\<close>

definition with_axis :: "hist \<Rightarrow> int \<Rightarrow> real list \<Rightarrow> bool \<Rightarrow> hist" where
  "with_axis h a es sumw2 =
     TH_new sumw2 (fDimension h)
       (if a = 0 then es else fXaxis h)
       (if a = 1 then es else fYaxis h)
       (if a = 2 then es else fZaxis h)"

text \<open>The edges of axis \<open>a\<close> of a histogram, for \<open>a\<close> one of 0, 1, 2.\<close>

definition axis_list :: "hist \<Rightarrow> int \<Rightarrow> real list" where
  "axis_list h a = (if a = 0 then fXaxis h else if a = 1 then fYaxis h else fZaxis h)"

text \<open>
  The plan of a merge on an axis of \<open>nb\<close> bins with edges \<open>es\<close> and windows \<open>ws\<close>: the
  mapping, the left bins and the offset after the second loop, and the new edges.
\<close>

definition merge_plan :: "int list list \<Rightarrow> (int \<rightharpoonup> int) \<times> int set \<times> int" where
  "merge_plan ws = build_mapping (sort ws) (Map.empty, {}, 0)"

definition merge_edges :: "int list list \<Rightarrow> int \<Rightarrow> real list \<Rightarrow> real list" where
  "merge_edges ws nb es =
     (case merge_plan ws of (mapping, left_idx, offset) \<Rightarrow>
        kept_edges mapping left_idx (nb + 2) es)"

definition merge_translate :: "int list list \<Rightarrow> int \<Rightarrow> real list \<Rightarrow> int \<Rightarrow> int" where
  "merge_translate ws nb es =
     (case merge_plan ws of (mapping, left_idx, offset) \<Rightarrow>
        translate mapping es (merge_edges ws nb es))"

section \<open>The wrapper: quantiles\<close>

text \<open>
  \<open>_Hist.quantiles(quantiles, strict, recompute_integral)\<close> of a 1D histogram, for a list
  of cumulative probabilities (the integer form, which only builds the list first, is not
  modelled). Two calls go to the library as they are: ComputeIntegral, which gives the
  histogram a new integral array, and GetQuantiles, which computes the quantiles when
  \<open>strict\<close> is not set. The NumPy path adds two doubles itself, the low edge and the
  width of the last bin; that sum is the machine's, the exact sum rounded, and is taken
  as it comes too (\<open>float_add\<close>). Whether NumPy can be imported is the parameter
  \<open>use_numpy\<close>.
\<close>

record qlib =
  lib_ComputeIntegral :: "hist \<Rightarrow> real list"
  lib_GetQuantiles :: "hist \<Rightarrow> real list \<Rightarrow> real list"
  float_add :: "real \<Rightarrow> real \<Rightarrow> real"

text \<open>
  The inner loop of the pure Python path:
  \<open>while integral[ibin] < quant and ibin < nbins + 1: ibin += 1\<close>.
\<close>

function advance :: "real list \<Rightarrow> int \<Rightarrow> real \<Rightarrow> int \<Rightarrow> int" where
  "advance integral nb quant ibin =
     (if integral ! nat ibin < quant \<and> ibin < nb + 1
      then advance integral nb quant (ibin + 1)
      else ibin)"
  by pat_completeness auto

termination
  by (relation "measure (\<lambda>(integral, nb, quant, ibin). nat (nb + 1 - ibin))") auto

declare advance.simps [simp del]

text \<open>The outer loop, with its \<open>break\<close> once the search has run off the end.\<close>

fun quantile_loop ::
  "real list \<Rightarrow> real list \<Rightarrow> int \<Rightarrow> real list \<Rightarrow> int \<Rightarrow> real list \<Rightarrow> real list" where
  "quantile_loop ax integral nb [] ibin output = output"
| "quantile_loop ax integral nb (quant # rest) ibin output =
     (let ibin1 = advance integral nb quant ibin;
          edge = GetBinLowEdge ax (ibin1 + 1);
          output1 = output @ [edge]
      in if ibin1 \<ge> nb + 1 then output1
         else quantile_loop ax integral nb rest ibin1 output1)"

text \<open>
  The NumPy calls of the other path. \<open>searchsorted\<close> with \<open>side='left'\<close> finds the index
  of a value by bisection, whatever the order of the array: it halves the range
  \<open>lo..hi\<close>, going right when the middle element is below the value. Each value is
  searched over the whole array. \<open>take\<close> raises IndexError for an index outside the array,
  \<open>unique\<close> sorts and drops duplicates.
\<close>

function bisect_left :: "real list \<Rightarrow> real \<Rightarrow> nat \<Rightarrow> nat \<Rightarrow> nat" where
  "bisect_left a v lo hi =
     (if lo < hi
      then (let mid = lo + (hi - lo) div 2
            in if a ! mid < v then bisect_left a v (mid + 1) hi
               else bisect_left a v lo mid)
      else lo)"
  by pat_completeness auto

termination
  by (relation "measure (\<lambda>(a, v, lo, hi). hi - lo)") auto

declare bisect_left.simps [simp del]

definition searchsorted_left :: "real list \<Rightarrow> real \<Rightarrow> nat" where
  "searchsorted_left a v = bisect_left a v 0 (length a)"

definition np_take :: "real list \<Rightarrow> nat list \<Rightarrow> error + real list" where
  "np_take a ids = (if \<forall>i \<in> set ids. i < length a then Inr (map ((!) a) ids) else Inl IndexError)"

definition np_unique :: "real list \<Rightarrow> real list" where
  "np_unique a = sort (remdups a)"

definition quantiles ::
  "qlib \<Rightarrow> bool \<Rightarrow> hist \<Rightarrow> real list \<Rightarrow> bool \<Rightarrow> bool \<Rightarrow> (error + real list) \<times> hist" where
  "quantiles lib use_numpy h0 qs strict recompute_integral =
     (let h = (if recompute_integral then h0\<lparr>fIntegral := lib_ComputeIntegral lib h0\<rparr> else h0) in
      if strict then
        (let integral = GetIntegral h in
         case nbins h 0 of Inl e \<Rightarrow> (Inl e, h)
         | Inr nb \<Rightarrow>
             if use_numpy then
               (let lows = map (GetBinLowEdge (fXaxis h)) [1 .. nb] in
                if lows = [] then (Inl IndexError, h)
                else
                  let edges1 = lows @ [float_add lib (last lows) (GetBinWidth (fXaxis h) nb)];
                      view = take (nat (nb + 1)) integral;
                      ids = map (searchsorted_left view) qs
                  in case np_take edges1 ids of Inl e \<Rightarrow> (Inl e, h)
                     | Inr taken \<Rightarrow> (Inr (np_unique taken), h))
             else
               (let quants = sort (remdups qs);
                    output = quantile_loop (fXaxis h) integral nb quants 0 []
                in (Inr (sort (remdups output)), h)))
      else (Inr (lib_GetQuantiles lib h qs), h))"

text \<open>
  A stand-in for the two library calls and the sum, and an empty histogram with one bin,
  whose integral array the library cannot normalise: it is all zero.
\<close>

definition example_qlib :: qlib where
  "example_qlib =
     \<lparr>lib_ComputeIntegral = (\<lambda>h. fIntegral h), lib_GetQuantiles = (\<lambda>h qs. qs),
      float_add = (\<lambda>x y. x + y)\<rparr>"

definition empty1 :: hist where
  "empty1 =
     \<lparr>fDimension = 1, fXaxis = [0, 1], fYaxis = unused_axis, fZaxis = unused_axis,
      fArray = [0, 0, 0], fSumw2 = [0, 0, 0], fEntries = 0, fStats = [],
      fIntegral = [0, 0, 0]\<rparr>"

text \<open>The integral array a call of \<open>quantiles\<close> works on.\<close>

definition integral_used :: "qlib \<Rightarrow> hist \<Rightarrow> bool \<Rightarrow> real list" where
  "integral_used lib h recompute_integral =
     (if recompute_integral then lib_ComputeIntegral lib h else fIntegral h)"

section \<open>The wrapper: rebinning\<close>











section \<open>Example objects\<close>

text \<open>
  Three small histograms, used to run the definitions on concrete inputs: a 1D histogram
  with two bins, a 2D histogram with two by one bins and a 3D histogram with one bin on
  each axis.
\<close>

definition example1 :: hist where
  "example1 =
     \<lparr>fDimension = 1, fXaxis = [0, 1, 2], fYaxis = unused_axis, fZaxis = unused_axis,
      fArray = [1, 2, 3, 4], fSumw2 = [1, 2, 3, 4], fEntries = 10, fStats = [],
      fIntegral = [0, 2 / 5, 1, 10]\<rparr>"

definition example2 :: hist where
  "example2 =
     \<lparr>fDimension = 2, fXaxis = [0, 1, 2], fYaxis = [0, 1], fZaxis = unused_axis,
      fArray = [1, 2, 3, 4, 5, 6, 7, 8, 9, 10, 11, 12],
      fSumw2 = [1, 2, 3, 4, 5, 6, 7, 8, 9, 10, 11, 12], fEntries = 78, fStats = [],
      fIntegral = []\<rparr>"

definition example3 :: hist where
  "example3 =
     \<lparr>fDimension = 3, fXaxis = [0, 1], fYaxis = [0, 1], fZaxis = [0, 1],
      fArray = replicate 27 1, fSumw2 = replicate 27 1, fEntries = 27, fStats = [],
      fIntegral = []\<rparr>"

section \<open>Bounds of an axis\<close>

text \<open>
  C9. For an axis argument that is none of 0, 1, 2, lowerbound and upperbound do not raise:
  each returns a ValueError object as its value, whereas nbins and axis raise ValueError
  for the same argument.
\<close>

theorem lowerbound_returns_exception:
  "a \<notin> {0, 1, 2} \<Longrightarrow>
     lowerbound h a = Inr (ExceptionObject ValueError)
     \<and> upperbound h a = Inr (ExceptionObject ValueError)
     \<and> nbins h a = Inl ValueError
     \<and> axis h a = Inl ValueError"
  by (simp add: lowerbound_def upperbound_def nbins_def axis_def)

theorem lowerbound_returns_exception_witness:
  "(3::int) \<notin> {0, 1, 2}
     \<and> lowerbound example1 3 = Inr (ExceptionObject ValueError)
     \<and> upperbound example1 3 = Inr (ExceptionObject ValueError)
     \<and> nbins example1 3 = Inl ValueError
     \<and> axis example1 3 = Inl ValueError"
  using lowerbound_returns_exception [of 3 example1] by simp

section \<open>Indexing\<close>

text \<open>
  C5. Indexing a histogram with an integer \<open>i\<close> returns the BinProxy of global bin \<open>i\<close>
  exactly when \<open>0 \<le> i < GetSize\<close> and raises IndexError otherwise, so for every negative
  integer. With a tuple of per-axis bin numbers on a 2D or 3D histogram, IndexError is
  raised unless every number lies in \<open>0 \<le> index < nbins(axis) + 2\<close>, and then the proxy
  of the global bin of those numbers is returned.
\<close>

theorem getitem_range:
  "getitem s r (IInt i) =
     (if 0 \<le> i \<and> i < GetSize (s ! r)
      then Inr (Proxy \<lparr>hist = r, idx = i, bxyz = GetBinXYZ (s ! r) i\<rparr>)
      else Inl IndexError)
   \<and> (i < 0 \<longrightarrow> getitem s r (IInt i) = Inl IndexError)
   \<and> (fDimension (s ! r) = 2 \<longrightarrow>
        getitem s r (ITuple [ix, iy]) =
          (if (0 \<le> ix \<and> ix < GetNbinsX (s ! r) + 2) \<and> (0 \<le> iy \<and> iy < GetNbinsY (s ! r) + 2)
           then Inr (Proxy \<lparr>hist = r, idx = GetBin (s ! r) ix iy 0,
                            bxyz = GetBinXYZ (s ! r) (GetBin (s ! r) ix iy 0)\<rparr>)
           else Inl IndexError))
   \<and> (fDimension (s ! r) = 3 \<longrightarrow>
        getitem s r (ITuple [ix, iy, iz]) =
          (if (0 \<le> ix \<and> ix < GetNbinsX (s ! r) + 2) \<and> (0 \<le> iy \<and> iy < GetNbinsY (s ! r) + 2)
              \<and> (0 \<le> iz \<and> iz < GetNbinsZ (s ! r) + 2)
           then Inr (Proxy \<lparr>hist = r, idx = GetBin (s ! r) ix iy iz,
                            bxyz = GetBinXYZ (s ! r) (GetBin (s ! r) ix iy iz)\<rparr>)
           else Inl IndexError))"
  by (auto simp: getitem_def range_check_def tuple_bin_def nbins_def BinProxy_init_def xyz_def)

theorem getitem_range_witness:
  "getitem [example1] 0 (IInt 3) = Inr (Proxy \<lparr>hist = 0, idx = 3, bxyz = (3, 0, 0)\<rparr>)
   \<and> getitem [example1] 0 (IInt 4) = Inl IndexError
   \<and> (- 1 :: int) < 0 \<and> getitem [example1] 0 (IInt (- 1)) = Inl IndexError
   \<and> fDimension ([example2] ! 0) = 2
   \<and> getitem [example2] 0 (ITuple [3, 2]) = Inr (Proxy \<lparr>hist = 0, idx = 11, bxyz = (3, 2, 0)\<rparr>)
   \<and> getitem [example2] 0 (ITuple [4, 0]) = Inl IndexError
   \<and> fDimension ([example3] ! 0) = 3
   \<and> getitem [example3] 0 (ITuple [1, 1, 1]) = Inr (Proxy \<lparr>hist = 0, idx = 13, bxyz = (1, 1, 1)\<rparr>)
   \<and> getitem [example3] 0 (ITuple [1, 1, - 1]) = Inl IndexError"
  using getitem_range [of "[example1]" 0 3]
    getitem_range [of "[example1]" 0 4]
    getitem_range [of "[example1]" 0 "- 1"]
    getitem_range [of "[example2]" 0 0 3 2]
    getitem_range [of "[example2]" 0 0 4 0]
    getitem_range [of "[example3]" 0 0 1 1 1]
    getitem_range [of "[example3]" 0 0 1 1 "- 1"]
  by (simp add: example1_def example2_def example3_def unused_axis_def GetSize_def
      GetBinXYZ_def GetBin_def GetNbinsX_def GetNbinsY_def GetNbinsZ_def GetNbins_def clamp_def)

section \<open>Bin proxies read through\<close>

text \<open>
  C7. A BinProxy keeps no bin data: in every state of the store its value is
  \<open>GetBinContent\<close> and its error is \<open>GetBinError\<close> of its histogram at its index. So a
  proxy made before the histogram was changed, directly or through a proxy, reads the new
  content and the new error.
\<close>

theorem BinProxy_reads_through:
  "BinProxy_value s b = GetBinContent (s ! hist b) (idx b)
   \<and> BinProxy_error s b = GetBinError (s ! hist b) (idx b)
   \<and> (r < length s \<and> wf_hist (s ! r) \<and> getitem s r (IInt i) = Inr (Proxy b) \<longrightarrow>
        BinProxy_value (s[r := SetBinContent (s ! r) i v]) b = v
        \<and> BinProxy_value (BinProxy_set_value s b v) b = v
        \<and> BinProxy_error (s[r := SetBinError (s ! r) i e]) b = \<bar>e\<bar>
        \<and> BinProxy_error (BinProxy_set_error s b e) b = \<bar>e\<bar>)"
proof -
  have rd: "BinProxy_value s b = GetBinContent (s ! hist b) (idx b)"
    "BinProxy_error s b = GetBinError (s ! hist b) (idx b)"
    by (simp_all add: BinProxy_value_def BinProxy_error_def)
  {
    assume r: "r < length s" and wf: "wf_hist (s ! r)"
      and g: "getitem s r (IInt i) = Inr (Proxy b)"
    from g have i: "0 \<le> i" "i < GetSize (s ! r)" and b: "hist b = r" "idx b = i"
      by (auto simp: getitem_def range_check_def BinProxy_init_def split: if_splits)
    from i have ne: "fArray (s ! r) \<noteq> []"
      by (auto simp: GetSize_def)
    have v: "GetBinContent (SetBinContent (s ! r) i v) i = v"
      using i by (simp add: GetBinContent_def SetBinContent_def GetSize_def clamp_def Let_def)
    define h1 where "h1 = Sumw2 (s ! r)"
    have len: "length (fSumw2 h1) = length (fArray (s ! r))" and arr: "fArray h1 = fArray (s ! r)"
      using wf by (auto simp: h1_def Sumw2_def wf_hist_def)
    have i': "nat i < length (fSumw2 h1)"
      using i len by (simp add: GetSize_def)
    have set: "SetBinError (s ! r) i e = h1\<lparr>fSumw2 := (fSumw2 h1)[nat i := e * e]\<rparr>"
      using i i' by (simp add: SetBinError_def Let_def h1_def [symmetric] GetSumw2N_def)
    have e: "GetBinError (SetBinError (s ! r) i e) i = \<bar>e\<bar>"
      using i i' arr unfolding set
      by (auto simp: GetBinError_def GetSize_def clamp_def Let_def)
    have "BinProxy_value (s[r := SetBinContent (s ! r) i v]) b = v
        \<and> BinProxy_value (BinProxy_set_value s b v) b = v
        \<and> BinProxy_error (s[r := SetBinError (s ! r) i e]) b = \<bar>e\<bar>
        \<and> BinProxy_error (BinProxy_set_error s b e) b = \<bar>e\<bar>"
      using r b v e
      by (simp add: BinProxy_value_def BinProxy_error_def BinProxy_set_value_def
          BinProxy_set_error_def)
  }
  with rd show ?thesis by blast
qed

theorem BinProxy_reads_through_witness:
  "(0::nat) < length [example1] \<and> wf_hist ([example1] ! 0)
   \<and> getitem [example1] 0 (IInt 2) = Inr (Proxy \<lparr>hist = 0, idx = 2, bxyz = (2, 0, 0)\<rparr>)
   \<and> BinProxy_value [example1] \<lparr>hist = 0, idx = 2, bxyz = (2, 0, 0)\<rparr> = 3
   \<and> BinProxy_value ([example1][0 := SetBinContent ([example1] ! 0) 2 7])
        \<lparr>hist = 0, idx = 2, bxyz = (2, 0, 0)\<rparr> = 7
   \<and> BinProxy_error ([example1][0 := SetBinError ([example1] ! 0) 2 (- 5)])
        \<lparr>hist = 0, idx = 2, bxyz = (2, 0, 0)\<rparr> = 5"
proof -
  have wf: "wf_hist ([example1] ! 0)"
    by (simp add: wf_hist_def wf_axis_def example1_def unused_axis_def ncells_def)
  have g: "getitem [example1] 0 (IInt 2) = Inr (Proxy \<lparr>hist = 0, idx = 2, bxyz = (2, 0, 0)\<rparr>)"
    by (simp add: getitem_def range_check_def BinProxy_init_def xyz_def GetBinXYZ_def
        example1_def GetSize_def GetNbinsX_def GetNbins_def)
  have v: "BinProxy_value [example1] \<lparr>hist = 0, idx = 2, bxyz = (2, 0, 0)\<rparr> = 3"
    by (simp add: BinProxy_value_def GetBinContent_def example1_def GetSize_def clamp_def)
  show ?thesis
    using wf g v
      BinProxy_reads_through [of "[example1]" "\<lparr>hist = 0, idx = 2, bxyz = (2, 0, 0)\<rparr>" 0 2 7 "- 5"]
    by simp
qed

section \<open>Arithmetic operators leave their operand alone\<close>
















section \<open>Constructor arguments\<close>

lemma remdups_length_iff: "length (remdups es) = length es \<longleftrightarrow> distinct es"
  by (metis distinct_remdups remdups_id_iff_distinct length_remdups_eq)

lemma ascending_run_Fin: "ascending_run (map Fin es) \<longleftrightarrow> sorted es"
proof (induction es rule: induct_list012)
  case 1
  show ?case by simp
next
  case (2 x)
  show ?case by simp
next
  case (3 x y zs)
  have "ascending_run (map Fin (x # y # zs)) \<longleftrightarrow> x \<le> y \<and> ascending_run (map Fin (y # zs))"
    by (simp add: not_less)
  also have "\<dots> \<longleftrightarrow> x \<le> y \<and> sorted (y # zs)"
    using 3(2) by blast
  also have "\<dots> \<longleftrightarrow> sorted (x # y # zs)"
    by (rule sorted2 [symmetric])
  finally show ?case .
qed

lemma distinct_map_Fin: "distinct (map Fin es) \<longleftrightarrow> distinct es"
  by (simp add: distinct_map inj_on_def)

lemma the_real_Fin: "map the_real (map Fin es) = es" "map (the_real \<circ> Fin) es = es"
  by (induction es) simp_all

lemma parse_iter_ok:
  assumes "sorted es" "distinct es"
  shows "parse_axis (PIter (map Fin es) # rest) =
       Inr (\<lparr>p_bins = Some (map Fin es), p_nbins = Some (int (length es) - 1),
              p_low = None, p_high = None\<rparr>, rest)"
proof -
  have "ascending_run (map Fin es)"
    using assms(1) by (simp add: ascending_run_Fin)
  moreover have "length (remdups (map Fin es)) = length (map Fin es)"
    using assms(2) by (simp only: remdups_length_iff distinct_map_Fin)
  ultimately show ?thesis
    by simp
qed

text \<open>
  C8. Argument parsing of the histogram constructors, run on \<open>Hist(5, 10**400, 0)\<close>. The
  number of bins is an \<open>int\<close> that is at least 1, both bounds are of a basic numeric type,
  and the lower bound is not below the upper one: the parser is at its
  \<open>raise ValueError\<close>. Building the message it calls \<open>float\<close> on the lower bound, a long too
  large for a double, and OverflowError is what comes out of the call. The test
  \<open>low >= high\<close> also lets a NaN through: \<open>Hist(5, float('nan'), 1.0)\<close> succeeds with a lower
  bound that is not below the upper one, and the list of edges \<open>[2.0, float('nan'), 1.0]\<close>,
  which is not in ascending order, is accepted.
\<close>

theorem parse_args_OverflowError:
  "isbasictype (PLong (10 ^ 400)) \<and> isbasictype (PInt 0)
   \<and> py_ge (num_val (PLong (10 ^ 400))) (num_val (PInt 0))
   \<and> parse_args 1 [PInt 5, PLong (10 ^ 400), PInt 0] False = Inl OverflowError
   \<and> parse_args 1 [PInt 5, PInt 1, PInt 0] False = Inl ValueError
   \<and> parse_args 1 [PInt 5, PFloat (NaN 0), PFloat (Fin 1)] False
       = Inr ([\<lparr>p_bins = None, p_nbins = Some 5, p_low = Some (PFloat (NaN 0)),
                 p_high = Some (PFloat (Fin 1))\<rparr>], [])
   \<and> \<not> py_lt (num_val (PFloat (NaN 0))) (num_val (PFloat (Fin 1)))
   \<and> \<not> axis_ok \<lparr>p_bins = None, p_nbins = Some 5, p_low = Some (PFloat (NaN 0)),
                  p_high = Some (PFloat (Fin 1))\<rparr>
   \<and> parse_args 1 [PIter [Fin 2, NaN 0, Fin 1]] False
       = Inr ([\<lparr>p_bins = Some [Fin 2, NaN 0, Fin 1], p_nbins = Some 2, p_low = None,
                 p_high = None\<rparr>], [])
   \<and> py_lt (Fin 1) (Fin 2)"
  by (simp add: parse_args_def isbasictype_def num_val_def py_ge_def is_nan_def float_of_def
      axis_ok_def)

section \<open>The user-data directory\<close>

text \<open>
  C10. \<open>ensure_directory\<close> returns None or a path (or lets the error of \<open>os.makedirs\<close>
  through). A path it returns is the expanded path, does not begin with a tilde, and is
  an existing directory when the function returns: the one that was there, with the file
  system untouched, or the one \<open>os.makedirs\<close> has just made. It returns None exactly when
  the expanded path still begins with a tilde or a file that is not a directory is at the
  path, and then it changes nothing.
\<close>

theorem ensure_directory_result:
  assumes c: "makedirs_contract os"
    and r: "ensure_directory os e f variable dflt = (res, f')"
  shows "(\<forall>p. res = Inr (Some p) \<longrightarrow>
            p = expanded_path os e variable dflt \<and> \<not> startswith p ''~''
            \<and> f' p = Some Dir \<and> (path_exists f p \<longrightarrow> f' = f))
         \<and> (res = Inr None \<longleftrightarrow>
              startswith (expanded_path os e variable dflt) ''~''
              \<or> f (expanded_path os e variable dflt) = Some File)
         \<and> (res = Inr None \<longrightarrow> f' = f)
         \<and> (\<forall>err. res = Inl err \<longrightarrow>
              \<not> path_exists f (expanded_path os e variable dflt)
              \<and> makedirs os f (expanded_path os e variable dflt) = (Inl err, f'))"
proof -
  define path where "path = expanded_path os e variable dflt"
  have k: "f path = Some File \<longleftrightarrow> path_exists f path \<and> \<not> isdir f path"
    by (cases "f path") (auto simp: path_exists_def isdir_def intro: kind.exhaust)
  show ?thesis
  proof (cases "startswith path ''~''")
    case True
    with r show ?thesis
      by (auto simp: ensure_directory_def path_def [symmetric])
  next
    case nt: False
    show ?thesis
    proof (cases "path_exists f path")
      case False
      obtain out g where m: "makedirs os f path = (out, g)"
        by (cases "makedirs os f path")
      show ?thesis
      proof (cases out)
        case (Inl err)
        with r nt False m k show ?thesis
          by (auto simp: ensure_directory_def path_def [symmetric])
      next
        case (Inr u)
        with m c have "g path = Some Dir"
          by (auto simp: makedirs_contract_def)
        with r nt False m k Inr show ?thesis
          by (auto simp: ensure_directory_def path_def [symmetric])
      qed
    next
      case True
      with r nt k show ?thesis
        by (auto simp: ensure_directory_def path_def [symmetric] isdir_def)
    qed
  qed
qed

theorem ensure_directory_result_witness:
  "makedirs_contract example_os
   \<and> ensure_directory example_os [''ROOTPY_DATA'' \<mapsto> ''~/d'', ''HOME'' \<mapsto> ''/u''] Map.empty
        ''ROOTPY_DATA'' ''/tmp/x''
       = (Inr (Some ''/u/d''), [''/u/d'' \<mapsto> Dir])
   \<and> \<not> startswith ''/u/d'' ''~'' \<and> [''/u/d'' \<mapsto> Dir] ''/u/d'' = Some Dir
   \<and> ensure_directory example_os [''ROOTPY_DATA'' \<mapsto> ''~/d''] Map.empty ''ROOTPY_DATA'' ''/tmp/x''
       = (Inr None, Map.empty)
   \<and> startswith (expanded_path example_os [''ROOTPY_DATA'' \<mapsto> ''~/d''] ''ROOTPY_DATA'' ''/tmp/x'') ''~''
   \<and> ensure_directory example_os Map.empty [''/tmp/x'' \<mapsto> File] ''ROOTPY_DATA'' ''/tmp/x''
       = (Inr None, [''/tmp/x'' \<mapsto> File])
   \<and> [''/tmp/x'' \<mapsto> File] (expanded_path example_os Map.empty ''ROOTPY_DATA'' ''/tmp/x'') = Some File"
proof -
  have c: "makedirs_contract example_os"
    by (auto simp: makedirs_contract_def example_os_def split: if_splits)
  have r1: "ensure_directory example_os [''ROOTPY_DATA'' \<mapsto> ''~/d'', ''HOME'' \<mapsto> ''/u''] Map.empty
        ''ROOTPY_DATA'' ''/tmp/x''
       = (Inr (Some ''/u/d''), [''/u/d'' \<mapsto> Dir])"
    by (simp add: ensure_directory_def expanded_path_def getenv_def example_os_def
        startswith_def path_exists_def Let_def)
  have r2: "ensure_directory example_os [''ROOTPY_DATA'' \<mapsto> ''~/d''] Map.empty ''ROOTPY_DATA'' ''/tmp/x''
       = (Inr None, Map.empty)"
    by (simp add: ensure_directory_def expanded_path_def getenv_def example_os_def
        startswith_def path_exists_def Let_def)
  have r3: "ensure_directory example_os Map.empty [''/tmp/x'' \<mapsto> File] ''ROOTPY_DATA'' ''/tmp/x''
       = (Inr None, [''/tmp/x'' \<mapsto> File])"
    by (simp add: ensure_directory_def expanded_path_def getenv_def example_os_def
        startswith_def path_exists_def isdir_def Let_def)
  have e3: "expanded_path example_os Map.empty ''ROOTPY_DATA'' ''/tmp/x'' = ''/tmp/x''"
    by (simp add: expanded_path_def getenv_def example_os_def)
  from ensure_directory_result [OF c r1]
  have w1: "\<not> startswith ''/u/d'' ''~'' \<and> [''/u/d'' \<mapsto> Dir] ''/u/d'' = Some Dir"
    by blast
  from ensure_directory_result [OF c r2]
  have w2: "startswith (expanded_path example_os [''ROOTPY_DATA'' \<mapsto> ''~/d''] ''ROOTPY_DATA'' ''/tmp/x'') ''~''
      \<or> Map.empty (expanded_path example_os [''ROOTPY_DATA'' \<mapsto> ''~/d''] ''ROOTPY_DATA'' ''/tmp/x'') = Some File"
    by blast
  then have w2': "startswith (expanded_path example_os [''ROOTPY_DATA'' \<mapsto> ''~/d''] ''ROOTPY_DATA'' ''/tmp/x'') ''~''"
    by simp
  from ensure_directory_result [OF c r3]
  have w3: "startswith (expanded_path example_os Map.empty ''ROOTPY_DATA'' ''/tmp/x'') ''~''
      \<or> [''/tmp/x'' \<mapsto> File] (expanded_path example_os Map.empty ''ROOTPY_DATA'' ''/tmp/x'') = Some File"
    by blast
  then have w3': "[''/tmp/x'' \<mapsto> File] (expanded_path example_os Map.empty ''ROOTPY_DATA'' ''/tmp/x'') = Some File"
    by (simp add: e3 startswith_def)
  from c r1 w1 r2 w2' r3 w3' show ?thesis
    by blast
qed

section \<open>Merging bins: validation\<close>

lemma py_range_step1: "py_range a b 1 = [a .. b - 1]"
proof (rule nth_equalityI)
  show "length (py_range a b 1) = length [a .. b - 1]"
    by (simp add: py_range_def)
next
  fix i assume "i < length (py_range a b 1)"
  then show "py_range a b 1 ! i = [a .. b - 1] ! i"
    by (simp add: py_range_def)
qed

lemma window_indices_upto:
  "window_indices l r n = [clip_index n l .. clip_index n r - 1]"
  by (simp add: window_indices_def slice_indices_def py_range_step1 clip_index_def Let_def)

lemma clip_index_bounds: "0 \<le> n \<Longrightarrow> 0 \<le> clip_index n v \<and> clip_index n v \<le> n"
  by (simp add: clip_index_def)

lemma merge_windows_Inl:
  "merge_windows n rs = Inl e \<Longrightarrow> e = ValueError \<and> (\<exists>w \<in> set rs. bad_range w)"
  by (induction rs arbitrary: e)
    (auto simp: bad_range_def Let_def split: if_splits sum.splits)

lemma merge_windows_bad:
  "\<exists>w \<in> set rs. bad_range w \<Longrightarrow> merge_windows n rs = Inl ValueError"
proof (induction rs)
  case Nil
  then show ?case by simp
next
  case (Cons w rs)
  show ?case
  proof (cases "bad_range w")
    case True
    then show ?thesis by (auto simp: bad_range_def Let_def)
  next
    case False
    with Cons.prems have "\<exists>w \<in> set rs. bad_range w" by simp
    from Cons.IH [OF this] show ?thesis
      by (simp add: Let_def)
  qed
qed

lemma merge_windows_iff:
  "merge_windows n rs = Inl ValueError \<longleftrightarrow> (\<exists>w \<in> set rs. bad_range w)"
  using merge_windows_Inl merge_windows_bad by blast

lemma merge_windows_shape:
  "0 \<le> n \<Longrightarrow> merge_windows n rs = Inr ws \<Longrightarrow> \<forall>w \<in> set ws. is_window n w"
proof (induction rs arbitrary: ws)
  case Nil
  then show ?case by simp
next
  case (Cons r rs)
  from Cons.prems(2) obtain ws' where
    rec: "merge_windows n rs = Inr ws'"
    by (auto simp: Let_def split: if_splits sum.splits)
  define l where "l = r ! 0"
  define r1 where "r1 = (if r ! 1 = - 1 then n else r ! 1 + 1)"
  define w where "w = window_indices l r1 n"
  from Cons.prems(2) rec have ws: "ws = (if w \<noteq> [] then w # ws' else ws')"
    by (auto simp: Let_def w_def l_def r1_def split: if_splits)
  have "is_window n w" if ne: "w \<noteq> []"
  proof -
    have w': "w = [clip_index n l .. clip_index n r1 - 1]"
      by (simp add: w_def window_indices_upto)
    with ne have le: "clip_index n l \<le> clip_index n r1 - 1"
      by (simp split: if_splits)
    from clip_index_bounds [OF Cons.prems(1)]
    have "0 \<le> clip_index n l" "clip_index n r1 \<le> n" by auto
    with le w' show ?thesis
      unfolding is_window_def
      by (intro exI [of _ "clip_index n l"] exI [of _ "clip_index n r1 - 1"]) auto
  qed
  with Cons.IH [OF Cons.prems(1) rec] ws show ?case
    by auto
qed

lemma is_window_props:
  "is_window n w \<Longrightarrow> w \<noteq> [] \<and> distinct w \<and> sorted w \<and> (\<forall>i \<in> set w. 0 \<le> i \<and> i < n)"
  by (auto simp: is_window_def)

lemma windows_overlap_iff:
  assumes "\<forall>w \<in> set ws. is_window n w"
  shows "windows_overlap ws \<longleftrightarrow> \<not> distinct (concat ws)"
proof (cases "length ws > 1")
  case True
  have "length (concat ws) \<noteq> length (remdups (concat ws)) \<longleftrightarrow> \<not> distinct (concat ws)"
    using remdups_length_iff [of "concat ws"] by metis
  with True show ?thesis
    unfolding windows_overlap_def by blast
next
  case False
  then consider "ws = []" | w where "ws = [w]"
    by (cases ws; cases "tl ws") auto
  then show ?thesis
  proof cases
    case 1
    then show ?thesis by (simp add: windows_overlap_def)
  next
    case 2
    with assms is_window_props [of n w] show ?thesis
      by (simp add: windows_overlap_def)
  qed
qed

lemma axis_edges_list:
  assumes "wf_axis ax"
  shows "map (GetBinLowEdge ax) [1 .. GetNbins ax] @ [GetBinUpEdge ax (GetNbins ax)] = ax"
proof (rule nth_equalityI)
  from assms show len: "length (map (GetBinLowEdge ax) [1 .. GetNbins ax] @ [GetBinUpEdge ax (GetNbins ax)]) = length ax"
    by (auto simp: wf_axis_def GetNbins_def)
  fix i assume i: "i < length (map (GetBinLowEdge ax) [1 .. GetNbins ax] @ [GetBinUpEdge ax (GetNbins ax)])"
  with len have i': "i < length ax" by simp
  show "(map (GetBinLowEdge ax) [1 .. GetNbins ax] @ [GetBinUpEdge ax (GetNbins ax)]) ! i = ax ! i"
  proof (cases "i < length ax - 1")
    case True
    then have li: "i < length [1 .. GetNbins ax]"
      by (auto simp: GetNbins_def)
    then have "[1 .. GetNbins ax] ! i = 1 + int i"
      using True by (auto simp: GetNbins_def)
    moreover have "GetBinLowEdge ax (1 + int i) = ax ! i"
      using True by (auto simp: GetBinLowEdge_def GetNbins_def)
    ultimately show ?thesis
      using li by (simp add: nth_append del: length_upto)
  next
    case False
    with i' have e: "i = length ax - 1" by simp
    have "length (map (GetBinLowEdge ax) [1 .. GetNbins ax]) = length ax - 1"
      using assms by (auto simp: wf_axis_def GetNbins_def)
    moreover have "GetBinUpEdge ax (GetNbins ax) = ax ! (length ax - 1)"
      using assms by (auto simp: GetNbins_def GetBinUpEdge_def wf_axis_def nat_diff_distrib)
    ultimately show ?thesis
      using e by (simp add: nth_append del: length_map length_upto)
  qed
qed

lemma wf_hist_dim: "wf_hist h \<Longrightarrow> fDimension h = 1 \<or> fDimension h = 2 \<or> fDimension h = 3"
  by (auto simp: wf_hist_def)

lemma edges_wf:
  assumes "wf_hist h"
  shows "edges h 0 = Inr (fXaxis h)" "edges h 1 = Inr (fYaxis h)" "edges h 2 = Inr (fZaxis h)"
  using assms axis_edges_list [of "fXaxis h"] axis_edges_list [of "fYaxis h"]
    axis_edges_list [of "fZaxis h"]
  by (simp_all add: edges_def nbins_def axis_def wf_hist_def GetNbinsX_def GetNbinsY_def GetNbinsZ_def)

lemma new_binning_template_wf:
  assumes wf: "wf_hist h" and a: "0 \<le> a" "a < GetDimension h"
    and es: "sorted es" "distinct es"
  shows "new_binning_template sumw2 h (PIter (map Fin es)) a = Inr (with_axis h a es sumw2)"
proof -
  from wf have ax: "sorted (fXaxis h)" "distinct (fXaxis h)" "sorted (fYaxis h)"
    "distinct (fYaxis h)" "sorted (fZaxis h)" "distinct (fZaxis h)"
    by (auto simp: wf_hist_def wf_axis_def)
  note p = parse_iter_ok [OF es] parse_iter_ok [OF ax(1,2)] parse_iter_ok [OF ax(3,4)]
    parse_iter_ok [OF ax(5,6)]
  from wf_hist_dim [OF wf] show ?thesis
  proof (elim disjE)
    assume d: "fDimension h = 1"
    with a have a0: "a = 0" by (simp add: GetDimension_def)
    from wf d have u: "fYaxis h = unused_axis" "fZaxis h = unused_axis"
      by (auto simp: wf_hist_def)
    show ?thesis
      using d a0 u p
      by (simp add: new_binning_template_def GetDimension_def has_iter_def Hist_init_def
          parse_args_def with_axis_def axis_edges_def the_real_Fin del: parse_axis.simps)
  next
    assume d: "fDimension h = 2"
    with a have a0: "a = 0 \<or> a = 1" by (auto simp: GetDimension_def)
    from wf d have u: "fZaxis h = unused_axis"
      by (auto simp: wf_hist_def)
    have l: "[0 ..< nat 2] = [0, 1]"
      by (simp add: upt_rec)
    show ?thesis
      using d a0 u p edges_wf [OF wf]
      by (auto simp: new_binning_template_def GetDimension_def has_iter_def Hist2D_init_def l
          parse_args_def with_axis_def axis_edges_def the_real_Fin numeral_2_eq_2 simp del: parse_axis.simps)
  next
    assume d: "fDimension h = 3"
    with a have a0: "a = 0 \<or> a = 1 \<or> a = 2" by (auto simp: GetDimension_def)
    have l: "[0 ..< nat 3] = [0, 1, 2]"
      by (simp add: upt_rec)
    show ?thesis
      using d a0 p edges_wf [OF wf]
      by (auto simp: new_binning_template_def GetDimension_def has_iter_def Hist3D_init_def l
          parse_args_def with_axis_def axis_edges_def the_real_Fin numeral_3_eq_3 simp del: parse_axis.simps)
  qed
qed

lemma filter_enumerate_sub:
  "sorted es \<Longrightarrow> distinct es \<Longrightarrow>
     sorted (map snd (filter P (enumerate n es))) \<and> distinct (map snd (filter P (enumerate n es)))
     \<and> set (map snd (filter P (enumerate n es))) \<subseteq> set es"
proof (induction es arbitrary: n)
  case Nil
  then show ?case by simp
next
  case (Cons e es)
  from Cons.prems have "sorted es" "distinct es" by simp_all
  from Cons.IH [OF this, of "Suc n"] Cons.prems show ?case
    by auto
qed

lemma kept_edges_sorted:
  "sorted es \<Longrightarrow> distinct es \<Longrightarrow>
     sorted (kept_edges m li n es) \<and> distinct (kept_edges m li n es)
     \<and> set (kept_edges m li n es) \<subseteq> set es"
  unfolding kept_edges_def by (rule filter_enumerate_sub)

lemma sum_w2_index_errors:
  "sum_w2_index h x y z = Inl e \<Longrightarrow> e = RuntimeError \<or> e = AssertionError"
  by (auto simp: sum_w2_index_def Let_def split: if_splits)

lemma merge_step_errors:
  "merge_step tr a n s b = (Some e, s') \<Longrightarrow> e = RuntimeError \<or> e = AssertionError"
  by (auto simp: merge_step_def get_sum_w2_def set_sum_w2_def Let_def
      split: prod.splits sum.splits dest: sum_w2_index_errors)

lemma merge_fill_errors:
  "merge_fill tr a n s bs = (Some e, s') \<Longrightarrow> e = RuntimeError \<or> e = AssertionError"
proof (induction bs arbitrary: s)
  case Nil
  then show ?case by simp
next
  case (Cons b bs)
  obtain r s1 where st: "merge_step tr a n s b = (r, s1)"
    by (cases "merge_step tr a n s b")
  show ?case
  proof (cases r)
    case None
    with Cons st show ?thesis by simp
  next
    case (Some e')
    with Cons.prems st have "e' = e" by simp
    with Some st merge_step_errors show ?thesis by blast
  qed
qed

lemma axis_list_valid:
  assumes "wf_hist h" "0 \<le> a" "a \<le> GetDimension h - 1"
  shows "a = 0 \<or> a = 1 \<or> a = 2"
    and "nbins h a = Inr (GetNbins (axis_list h a))"
    and "axis h a = Inr (axis_list h a)"
    and "edges h a = Inr (axis_list h a)"
    and "wf_axis (axis_list h a)"
proof -
  from assms show a: "a = 0 \<or> a = 1 \<or> a = 2"
    by (auto simp: wf_hist_def GetDimension_def)
  from a show "nbins h a = Inr (GetNbins (axis_list h a))"
    by (auto simp: nbins_def axis_list_def GetNbinsX_def GetNbinsY_def GetNbinsZ_def)
  from a show "axis h a = Inr (axis_list h a)"
    by (auto simp: axis_def axis_list_def)
  from a edges_wf [OF assms(1)] show "edges h a = Inr (axis_list h a)"
    by (auto simp: axis_list_def)
  from a assms(1) show "wf_axis (axis_list h a)"
    by (auto simp: axis_list_def wf_hist_def)
qed

lemma axis_list_with_axis:
  "a = 0 \<or> a = 1 \<or> a = 2 \<Longrightarrow> axis_list (with_axis h a es sumw2) a = es"
  by (auto simp: axis_list_def with_axis_def TH_new_def)

lemma merge_bins_unfold:
  assumes r: "r < length s" and wf: "wf_hist (s ! r)"
    and a: "0 \<le> a" "a \<le> GetDimension (s ! r) - 1"
    and nb: "nb = GetNbins (axis_list (s ! r) a)"
    and ws: "merge_windows (nb + 2) bin_ranges = Inr ws" "ws \<noteq> []" "\<not> windows_overlap ws"
  shows "merge_bins sumw2 s r bin_ranges a =
     (let es = axis_list (s ! r) a;
          template = with_axis (s ! r) a (merge_edges ws nb es) sumw2;
          n = length s
      in case merge_fill (merge_translate ws nb es) a n (s @ [template])
                (bins (s @ [template]) r True) of
           (Some e, s2) \<Rightarrow> (Inl e, s2)
         | (None, s2) \<Rightarrow>
             (let s3 = s2[n := PutStats (s2 ! n) (GetStats (s2 ! r))];
                  s4 = s3[n := SetEntries (s3 ! n) (GetEntries (s3 ! r))]
              in (Inr n, s4)))"
proof -
  note v = axis_list_valid [OF wf a]
  let ?es = "axis_list (s ! r) a"
  obtain m li off where plan: "merge_plan ws = (m, li, off)"
    by (cases "merge_plan ws") auto
  then have plan': "build_mapping (sort ws) (Map.empty, {}, 0) = (m, li, off)"
    by (simp add: merge_plan_def)
  define ne where "ne = kept_edges m li (nb + 2) ?es"
  have ne': "merge_edges ws nb ?es = ne"
    by (simp add: merge_edges_def plan ne_def)
  have tr: "merge_translate ws nb ?es = translate m ?es ne"
    by (simp add: merge_translate_def plan ne')
  from v(5) have "sorted ?es" "distinct ?es"
    by (simp_all add: wf_axis_def)
  from kept_edges_sorted [OF this] have sd: "sorted ne" "distinct ne"
    by (simp_all add: ne_def)
  have a': "a < GetDimension (s ! r)" using a by simp
  from new_binning_template_wf [OF wf a(1) a' sd]
  have t: "new_binning_template sumw2 (s ! r) (PIter (map Fin ne)) a
      = Inr (with_axis (s ! r) a ne sumw2)" .
  define template where "template = with_axis (s ! r) a ne sumw2"
  have ax_new: "axis template a = Inr ne"
    using v(1) by (auto simp: axis_def template_def with_axis_def TH_new_def)
  have nth: "(s @ [template]) ! r = s ! r" "(s @ [template]) ! length s = template"
    using r by (simp_all add: nth_append)
  have ws': "merge_windows (GetNbins ?es + 2) bin_ranges = Inr ws"
    using ws(1) nb by simp
  have ne2: "kept_edges m li (GetNbins ?es + 2) ?es = ne"
    by (simp add: ne_def nb)
  have na: "\<not> a > GetDimension (s ! r) - 1"
    using a by simp
  show ?thesis
    unfolding merge_bins_def Let_def
    by (simp only: na if_False v(2,3,4) sum.case ws' ws(2,3) plan' prod.case ne2 t
        alloc_def nth ax_new ne' tr template_def [symmetric])
qed

lemma merge_bins_early:
  assumes r: "r < length s" and wf: "wf_hist (s ! r)"
  shows "a > GetDimension (s ! r) - 1 \<or> a < 0 \<Longrightarrow>
           merge_bins sumw2 s r bin_ranges a = (Inl ValueError, s)"
    and "0 \<le> a \<Longrightarrow> a \<le> GetDimension (s ! r) - 1 \<Longrightarrow>
           merge_windows (GetNbins (axis_list (s ! r) a) + 2) bin_ranges = Inl e \<Longrightarrow>
           merge_bins sumw2 s r bin_ranges a = (Inl e, s)"
    and "0 \<le> a \<Longrightarrow> a \<le> GetDimension (s ! r) - 1 \<Longrightarrow>
           merge_windows (GetNbins (axis_list (s ! r) a) + 2) bin_ranges = Inr [] \<Longrightarrow>
           merge_bins sumw2 s r bin_ranges a = (Inr (length s), s @ [s ! r])"
    and "0 \<le> a \<Longrightarrow> a \<le> GetDimension (s ! r) - 1 \<Longrightarrow>
           merge_windows (GetNbins (axis_list (s ! r) a) + 2) bin_ranges = Inr ws \<Longrightarrow>
           ws \<noteq> [] \<Longrightarrow> windows_overlap ws \<Longrightarrow>
           merge_bins sumw2 s r bin_ranges a = (Inl ValueError, s)"
proof -
  show "merge_bins sumw2 s r bin_ranges a = (Inl ValueError, s)"
    if "a > GetDimension (s ! r) - 1 \<or> a < 0"
    using that by (auto simp: merge_bins_def nbins_def)
  show "merge_bins sumw2 s r bin_ranges a = (Inl e, s)"
    if "0 \<le> a" "a \<le> GetDimension (s ! r) - 1"
      "merge_windows (GetNbins (axis_list (s ! r) a) + 2) bin_ranges = Inl e"
    using that axis_list_valid(2) [OF wf that(1,2)]
    by (simp add: merge_bins_def)
  show "merge_bins sumw2 s r bin_ranges a = (Inr (length s), s @ [s ! r])"
    if "0 \<le> a" "a \<le> GetDimension (s ! r) - 1"
      "merge_windows (GetNbins (axis_list (s ! r) a) + 2) bin_ranges = Inr []"
    using that axis_list_valid(2) [OF wf that(1,2)]
    by (simp add: merge_bins_def Clone_def alloc_def)
  show "merge_bins sumw2 s r bin_ranges a = (Inl ValueError, s)"
    if "0 \<le> a" "a \<le> GetDimension (s ! r) - 1"
      "merge_windows (GetNbins (axis_list (s ! r) a) + 2) bin_ranges = Inr ws"
      "ws \<noteq> []" "windows_overlap ws"
    using that axis_list_valid(2) [OF wf that(1,2)]
    by (simp add: merge_bins_def)
qed

lemma merge_bins_late:
  assumes r: "r < length s" and wf: "wf_hist (s ! r)"
    and a: "0 \<le> a" "a \<le> GetDimension (s ! r) - 1"
    and ws: "merge_windows (GetNbins (axis_list (s ! r) a) + 2) bin_ranges = Inr ws"
      "ws \<noteq> []" "\<not> windows_overlap ws"
  shows "fst (merge_bins sumw2 s r bin_ranges a) \<noteq> Inl ValueError"
proof -
  let ?es = "axis_list (s ! r) a"
  let ?nb = "GetNbins ?es"
  let ?t = "with_axis (s ! r) a (merge_edges ws ?nb ?es) sumw2"
  obtain eo s2 where f: "merge_fill (merge_translate ws ?nb ?es) a (length s) (s @ [?t])
                (bins (s @ [?t]) r True) = (eo, s2)"
    by (cases "merge_fill (merge_translate ws ?nb ?es) a (length s) (s @ [?t])
                (bins (s @ [?t]) r True)")
  note u = merge_bins_unfold [OF r wf a refl ws, of sumw2]
  show ?thesis
  proof (cases eo)
    case None
    with u f show ?thesis by (simp add: Let_def)
  next
    case (Some e)
    with f merge_fill_errors have "e = RuntimeError \<or> e = AssertionError" by blast
    with u f Some show ?thesis by (auto simp: Let_def)
  qed
qed

text \<open>
  C2, amended. On a histogram of the library, \<open>merge_bins\<close> raises ValueError exactly
  when the axis exceeds the dimension minus one or is negative, when a bin range does not
  have exactly two elements, when its two indices are equal, when the left index is
  negative and the right one is not, or when two windows share a bin number. When every
  range gives an empty window, nothing is merged and a clone is returned.
\<close>

theorem merge_bins_ValueError:
  assumes r: "r < length s" and wf: "wf_hist (s ! r)"
  shows "(fst (merge_bins sumw2 s r bin_ranges a) = Inl ValueError \<longleftrightarrow>
            a > GetDimension (s ! r) - 1 \<or> a < 0
            \<or> (\<exists>w \<in> set bin_ranges. bad_range w)
            \<or> (\<exists>nb ws. nbins (s ! r) a = Inr nb
                  \<and> merge_windows (nb + 2) bin_ranges = Inr ws \<and> \<not> distinct (concat ws)))
         \<and> ((\<exists>nb. nbins (s ! r) a = Inr nb \<and> a \<le> GetDimension (s ! r) - 1
                \<and> merge_windows (nb + 2) bin_ranges = Inr []) \<longrightarrow>
              merge_bins sumw2 s r bin_ranges a = (Inr (length s), s @ [s ! r]))"
proof (cases "a > GetDimension (s ! r) - 1 \<or> a < 0")
  case True
  from merge_bins_early(1) [OF r wf True] True show ?thesis
    by (auto simp: nbins_def)
next
  case False
  then have a: "0 \<le> a" "a \<le> GetDimension (s ! r) - 1" by auto
  note v = axis_list_valid [OF wf a]
  let ?n = "GetNbins (axis_list (s ! r) a) + 2"
  from v(5) have n0: "0 \<le> ?n" by (simp add: GetNbins_def)
  show ?thesis
  proof (cases "merge_windows ?n bin_ranges")
    case (Inl e)
    from merge_windows_Inl [OF Inl] have e: "e = ValueError" and bad: "\<exists>w \<in> set bin_ranges. bad_range w"
      by auto
    from merge_bins_early(2) [OF r wf a Inl] e bad Inl v(2) show ?thesis
      by auto
  next
    case (Inr ws)
    with merge_windows_iff [of ?n bin_ranges] have nobad: "\<not> (\<exists>w \<in> set bin_ranges. bad_range w)"
      by simp
    from merge_windows_shape [OF n0 Inr] have shape: "\<forall>w \<in> set ws. is_window ?n w" .
    note ov = windows_overlap_iff [OF shape]
    show ?thesis
    proof (cases "ws = []")
      case True
      from merge_bins_early(3) [OF r wf a Inr [unfolded True]] Inr True v(2) nobad False
      show ?thesis by auto
    next
      case ne: False
      show ?thesis
      proof (cases "windows_overlap ws")
        case True
        from merge_bins_early(4) [OF r wf a Inr ne True] True ov Inr v(2) ne
        show ?thesis by auto
      next
        case no: False
        from merge_bins_late [OF r wf a Inr ne no] no ov Inr v(2) ne nobad False
        show ?thesis by auto
      qed
    qed
  qed
qed

lemma wf_example1: "wf_hist example1"
  by (simp add: wf_hist_def wf_axis_def example1_def unused_axis_def ncells_def)

theorem merge_bins_ValueError_witness:
  "(0::nat) < length [example1] \<and> wf_hist ([example1] ! 0)
   \<and> bad_range [0, 0]
   \<and> fst (merge_bins True [example1] 0 [[0, 0]] 0) = Inl ValueError
   \<and> nbins ([example1] ! 0) 0 = Inr 2 \<and> merge_windows (2 + 2) [[3, 1]] = Inr []
   \<and> merge_bins True [example1] 0 [[3, 1]] 0 = (Inr 1, [example1, example1])
   \<and> fst (merge_bins True [example1] 0 [[0, 1]] (- 1)) = Inl ValueError"
proof -
  have r: "(0::nat) < length [example1]" by simp
  have wf: "wf_hist ([example1] ! 0)" by (simp add: wf_example1)
  have b: "bad_range [0, 0]" by (simp add: bad_range_def)
  have n: "nbins ([example1] ! 0) 0 = Inr 2"
    by (simp add: nbins_def GetNbinsX_def GetNbins_def example1_def)
  have d: "(0::int) \<le> GetDimension ([example1] ! 0) - 1"
    by (simp add: GetDimension_def example1_def)
  have w: "merge_windows (2 + 2) [[3, 1]] = Inr []"
    by (simp add: window_indices_def slice_indices_def py_range_def)
  note t = merge_bins_ValueError [OF r wf, of True]
  from t [where bin_ranges = "[[0, 0]]" and a = 0] b have w1: "fst (merge_bins True [example1] 0 [[0, 0]] 0) = Inl ValueError"
    by simp
  from t [where bin_ranges = "[[3, 1]]" and a = 0] n d w
  have w2: "merge_bins True [example1] 0 [[3, 1]] 0 = (Inr 1, [example1, example1])"
    by auto
  from t [where bin_ranges = "[[0, 1]]" and a = "- 1"]
  have w3: "fst (merge_bins True [example1] 0 [[0, 1]] (- 1)) = Inl ValueError"
    by simp
  from r wf b w1 n w w2 w3 show ?thesis
    by blast
qed

text \<open>
  The claim as stated leaves the negative axis out: on the axis \<open>-1\<close> a valid list of
  ranges raises ValueError (from \<open>nbins\<close>) although none of its conditions holds.
\<close>

theorem merge_bins_negative_axis_counterexample:
  "fst (merge_bins True [example1] 0 [[0, 1]] (- 1)) = Inl ValueError
   \<and> \<not> (- 1 > GetDimension ([example1] ! 0) - 1)
   \<and> \<not> bad_range [0, 1]
   \<and> merge_windows (GetNbinsX ([example1] ! 0) + 2) [[0, 1]] = Inr [[0, 1]]
   \<and> distinct (concat [[0, 1 :: int]])"
  by (simp add: merge_bins_def nbins_def GetDimension_def example1_def bad_range_def
      window_indices_def slice_indices_def py_range_def GetNbinsX_def GetNbins_def upt_rec)

section \<open>Quantiles on bin edges\<close>

lemma advance_bounds:
  "0 \<le> ibin \<Longrightarrow> ibin \<le> nb \<Longrightarrow> quant \<le> integral ! nat nb \<Longrightarrow>
     ibin \<le> advance integral nb quant ibin \<and> advance integral nb quant ibin \<le> nb"
proof (induction integral nb quant ibin rule: advance.induct)
  case (1 integral nb quant ibin)
  show ?case
  proof (cases "integral ! nat ibin < quant \<and> ibin < nb + 1")
    case True
    with "1.prems" have "ibin \<noteq> nb" by auto
    with "1.prems" have "0 \<le> ibin + 1" "ibin + 1 \<le> nb" by auto
    from "1.IH" [OF True this "1.prems"(3)] True show ?thesis
      by (subst (1 2) advance.simps) auto
  next
    case False
    with "1.prems" show ?thesis
      by (subst (1 2) advance.simps) auto
  qed
qed

lemma low_edge_is_edge:
  "wf_axis ax \<Longrightarrow> 0 \<le> i \<Longrightarrow> i \<le> GetNbins ax \<Longrightarrow> GetBinLowEdge ax (i + 1) \<in> set ax"
proof -
  assume wf: "wf_axis ax" and i: "0 \<le> i" "i \<le> GetNbins ax"
  show ?thesis
  proof (cases "i < GetNbins ax")
    case True
    with i have "GetBinLowEdge ax (i + 1) = ax ! nat i"
      by (simp add: GetBinLowEdge_def)
    moreover from True i have "nat i < length ax"
      by (simp add: GetNbins_def)
    ultimately show ?thesis by simp
  next
    case False
    with i have e: "i = GetNbins ax" by simp
    from wf have n: "0 < GetNbins ax" "nat (GetNbins ax) = length ax - 1"
      by (auto simp: wf_axis_def GetNbins_def)
    have "GetBinLowEdge ax (i + 1) = GetXmin ax + real_of_int (GetNbins ax) * binwidth ax"
      using e by (simp add: GetBinLowEdge_def)
    also have "\<dots> = GetXmax ax"
      using n by (simp add: binwidth_def)
    also have "\<dots> = ax ! (length ax - 1)"
      by (simp add: GetXmax_def)
    finally show ?thesis
      using wf by (auto simp: wf_axis_def intro!: nth_mem)
  qed
qed

lemma quantile_loop_edges:
  assumes wf: "wf_axis ax" and nb: "nb = GetNbins ax"
  shows "\<forall>q \<in> set quants. q \<le> integral ! nat nb \<Longrightarrow> 0 \<le> ibin \<Longrightarrow> ibin \<le> nb \<Longrightarrow>
           set out \<subseteq> set ax \<Longrightarrow>
           set (quantile_loop ax integral nb quants ibin out) \<subseteq> set ax"
proof (induction quants arbitrary: ibin out)
  case Nil
  then show ?case by simp
next
  case (Cons q quants)
  define j where "j = advance integral nb q ibin"
  from Cons.prems have "q \<le> integral ! nat nb" by simp
  from advance_bounds [OF Cons.prems(2,3) this] have j: "0 \<le> j" "j \<le> nb"
    using Cons.prems(2) by (auto simp: j_def)
  from low_edge_is_edge [OF wf j(1)] j(2) nb have e: "GetBinLowEdge ax (j + 1) \<in> set ax"
    by simp
  with Cons.prems(4) have out: "set (out @ [GetBinLowEdge ax (j + 1)]) \<subseteq> set ax"
    by simp
  from Cons.prems(1) have "\<forall>q \<in> set quants. q \<le> integral ! nat nb" by simp
  from Cons.IH [OF this j out] out show ?case
    by (simp add: Let_def j_def [symmetric])
qed

lemma quantiles_python_reached:
  assumes wf: "wf_hist h" and dim: "fDimension h = 1"
    and reach: "\<forall>q \<in> set qs. q \<le> integral_used lib h recompute_integral ! nat (GetNbinsX h)"
  shows "\<exists>out. fst (quantiles lib False h qs True recompute_integral) = Inr out
           \<and> sorted out \<and> distinct out \<and> set out \<subseteq> set (fXaxis h)"
proof -
  define h1 where "h1 = (if recompute_integral then h\<lparr>fIntegral := lib_ComputeIntegral lib h\<rparr> else h)"
  let ?ax = "fXaxis h"
  let ?nb = "GetNbinsX h"
  let ?int = "integral_used lib h recompute_integral"
  have ax: "fXaxis h1 = ?ax" and int: "GetIntegral h1 = ?int"
    by (simp_all add: h1_def GetIntegral_def integral_used_def)
  have nb: "nbins h1 0 = Inr ?nb"
    by (simp add: nbins_def GetNbinsX_def ax)
  from wf have wfa: "wf_axis ?ax"
    by (simp add: wf_hist_def)
  have nb': "?nb = GetNbins ?ax"
    by (simp add: GetNbinsX_def)
  from wfa have nb0: "0 \<le> ?nb"
    by (auto simp: nb' GetNbins_def wf_axis_def)
  define out where "out = quantile_loop ?ax ?int ?nb (sort (remdups qs)) 0 []"
  from reach have "\<forall>q \<in> set (sort (remdups qs)). q \<le> ?int ! nat ?nb"
    by simp
  from quantile_loop_edges [OF wfa nb' this _ nb0, of "[]"] have sub: "set out \<subseteq> set ?ax"
    by (simp add: out_def)
  have "fst (quantiles lib False h qs True recompute_integral) = Inr (sort (remdups out))"
    by (simp add: quantiles_def h1_def [symmetric] nb int ax out_def Let_def)
  with sub show ?thesis
    by auto
qed

text \<open>
  C3. \<open>quantiles\<close> with \<open>strict=True\<close> on the empty histogram \<open>Hist(1, 0, 1)\<close>, whose bin
  edges are 0 and 1 and whose integral array is zero up to the entry of the last bin, for
  the one cumulative probability 1/2. No entry of the array reaches the probability, and
  the search runs off the end: the pure Python path returns the list with the number 2,
  the low edge of the bin after the overflow bin, which is no bin edge of the histogram;
  the NumPy path raises IndexError in \<open>take\<close>. Neither depends on the entry \<open>x\<close> the
  array holds after the last bin, nor on what the library's ComputeIntegral and
  GetQuantiles or the machine's sum do.
\<close>

theorem quantiles_empty_histogram:
  "wf_hist (empty1\<lparr>fIntegral := [0, 0, x]\<rparr>) \<and> fDimension (empty1\<lparr>fIntegral := [0, 0, x]\<rparr>) = 1
   \<and> fXaxis (empty1\<lparr>fIntegral := [0, 0, x]\<rparr>) = [0, 1]
   \<and> GetIntegral (empty1\<lparr>fIntegral := [0, 0, x]\<rparr>) = [0, 0, x]
   \<and> fst (quantiles lib False (empty1\<lparr>fIntegral := [0, 0, x]\<rparr>) [1 / 2] True False) = Inr [2]
   \<and> 2 \<notin> set (fXaxis (empty1\<lparr>fIntegral := [0, 0, x]\<rparr>))
   \<and> fst (quantiles lib True (empty1\<lparr>fIntegral := [0, 0, x]\<rparr>) [1 / 2] True False)
       = Inl IndexError"
proof -
  let ?h = "empty1\<lparr>fIntegral := [0, 0, x]\<rparr>"
  have wf: "wf_hist ?h"
    by (simp add: wf_hist_def wf_axis_def empty1_def unused_axis_def ncells_def)
  have adv: "advance [0, 0, x] 1 (1 / 2) 0 = 2"
    by (simp add: advance.simps [of _ _ _ 0] advance.simps [of _ _ _ 1] advance.simps [of _ _ _ 2])
  have py: "fst (quantiles lib False ?h [1 / 2] True False) = Inr [2]"
    by (simp add: quantiles_def empty1_def nbins_def GetNbinsX_def GetNbins_def GetIntegral_def
        adv Let_def GetBinLowEdge_def GetXmin_def GetXmax_def binwidth_def)
  have bs: "bisect_left [0, 0] (1 / 2) 0 (Suc (Suc 0)) = Suc (Suc 0)"
    by code_simp
  have np: "fst (quantiles lib True ?h [1 / 2] True False) = Inl IndexError"
    by (simp add: quantiles_def empty1_def nbins_def GetNbinsX_def GetNbins_def GetIntegral_def
        Let_def searchsorted_left_def np_take_def upto_rec1 bs)
  from wf py np show ?thesis
    by (simp add: empty1_def GetIntegral_def)
qed

theorem quantiles_empty_histogram_witness:
  "fst (quantiles example_qlib False empty1 [1 / 2] True False) = Inr [2]
   \<and> 2 \<notin> set (fXaxis empty1)
   \<and> fst (quantiles example_qlib True empty1 [1 / 2] True False) = Inl IndexError"
proof -
  have e: "empty1\<lparr>fIntegral := [0, 0, 0]\<rparr> = empty1"
    by (simp add: empty1_def)
  from quantiles_empty_histogram [of 0 example_qlib] show ?thesis
    unfolding e by blast
qed

section \<open>Filling a new histogram bin by bin\<close>


lemma sum_list_update_real:
  fixes xs :: "real list"
  shows "i < length xs \<Longrightarrow> sum_list (xs[i := v]) = sum_list xs - xs ! i + v"
proof (induction xs arbitrary: i)
  case Nil
  then show ?case by simp
next
  case (Cons x xs)
  then show ?case by (cases i) auto
qed

lemma fold_add_at_sum:
  fixes xs :: "real list"
  assumes "\<forall>t \<in> set ts. f t < length xs"
  shows "sum_list (fold (\<lambda>t ys. ys[f t := ys ! f t + g t]) ts xs) = sum_list xs + sum_list (map g ts)"
  using assms
proof (induction ts arbitrary: xs)
  case Nil
  then show ?case by simp
next
  case (Cons t ts)
  let ?ys = "xs[f t := xs ! f t + g t]"
  from Cons.prems have "\<forall>t \<in> set ts. f t < length ?ys" and "f t < length xs" by simp_all
  from Cons.IH [OF this(1)] sum_list_update_real [OF this(2)] show ?case
    by simp
qed



















section \<open>Rebinning\<close>










end
